theory Spec2Isabelle
  imports Main
begin

section \<open>Python values\<close>

text \<open>
  The pipeline of \<^verbatim>\<open>workers/tasks.py\<close> is embedded together with the entity of
  \<^verbatim>\<open>domain/entities.py\<close>, the publisher registry of
  \<^verbatim>\<open>core/services/social_publisher.py\<close>, the analysis gateway of
  \<^verbatim>\<open>core/services/image_analyzer.py\<close> and the repository of
  \<^verbatim>\<open>infrastructure/database/repositories.py\<close>.

  A Python \<^verbatim>\<open>str\<close> is a \<^typ>\<open>string\<close> holding its UTF-8 bytes; the program only
  concatenates strings and tests them for emptiness, which the encoding preserves.
  A parsed JSON document (the result of \<^verbatim>\<open>json.loads\<close>, the content of a JSON column)
  is a \<^verbatim>\<open>json\<close> value; an object is an association list read with \<^const>\<open>map_of\<close>.
\<close>

datatype json =
    JNull
  | JBool bool
  | JNum int
  | JStr string
  | JArr "json list"
  | JObj "(string \<times> json) list"

text \<open>Truth value of a JSON value in a Python condition (\<^verbatim>\<open>if x:\<close>).\<close>

fun json_truthy :: "json \<Rightarrow> bool" where
  "json_truthy JNull = False"
| "json_truthy (JBool b) = b"
| "json_truthy (JNum n) = (n \<noteq> 0)"
| "json_truthy (JStr s) = (s \<noteq> [])"
| "json_truthy (JArr xs) = (xs \<noteq> [])"
| "json_truthy (JObj kvs) = (kvs \<noteq> [])"

text \<open>Truth value of an \<^verbatim>\<open>Optional[str]\<close>: \<^verbatim>\<open>None\<close> and the empty string are false.\<close>

fun str_truthy :: "string option \<Rightarrow> bool" where
  "str_truthy None = False"
| "str_truthy (Some s) = (s \<noteq> [])"

section \<open>Exceptions (domain/exceptions.py and the built-in ones the code can raise)\<close>

text \<open>
  An exception is its class and the text \<^verbatim>\<open>str(e)\<close> gives. \<^verbatim>\<open>ImageAnalysisError\<close> carries
  its \<^verbatim>\<open>default_data\<close> attribute. \<^verbatim>\<open>OtherException\<close> stands for any other subclass of
  \<^verbatim>\<open>Exception\<close> raised by a library (the HTTP client, SQLAlchemy, Selenium), named by
  its class name. Only subclasses of \<^verbatim>\<open>Exception\<close> are modelled: every handler of
  the program is \<^verbatim>\<open>except Exception\<close> or narrower.
\<close>

datatype exn_class =
    DomainException
  | ImageAnalysisError "json option"
  | ContentGenerationError
  | MediaProcessingError
  | PublishingError
  | RepositoryError
  | TaskQueueError
  | IndexError
  | KeyError
  | TypeError
  | AttributeError
  | ValueError
  | UnboundLocalError
  | IntegrityError
  | InvalidRequestError
  | OtherException string

datatype exn = Exn (cls: exn_class) (message: string)

text \<open>\<^verbatim>\<open>isinstance(e, DomainException)\<close>, after the class hierarchy of domain/exceptions.py.\<close>

fun is_DomainException :: "exn \<Rightarrow> bool" where
  "is_DomainException (Exn DomainException _) = True"
| "is_DomainException (Exn (ImageAnalysisError _) _) = True"
| "is_DomainException (Exn ContentGenerationError _) = True"
| "is_DomainException (Exn MediaProcessingError _) = True"
| "is_DomainException (Exn PublishingError _) = True"
| "is_DomainException (Exn RepositoryError _) = True"
| "is_DomainException (Exn TaskQueueError _) = True"
| "is_DomainException (Exn _ _) = False"

text \<open>\<^verbatim>\<open>str(e)\<close>.\<close>

definition str :: "exn \<Rightarrow> string" where
  "str e = message e"

text \<open>
  Subscription \<^verbatim>\<open>d[k]\<close> with a string key: defined on an object that has the key,
  \<^verbatim>\<open>KeyError\<close> on an object without it, \<^verbatim>\<open>TypeError\<close> on every other value.
  \<^verbatim>\<open>str\<close> of a \<^verbatim>\<open>KeyError\<close> is the key between quotes.
\<close>

fun subscript :: "json \<Rightarrow> string \<Rightarrow> exn + json" where
  "subscript (JObj kvs) k =
     (case map_of kvs k of
        Some v \<Rightarrow> Inr v
      | None \<Rightarrow> Inl (Exn KeyError ([CHR 0x27] @ k @ [CHR 0x27])))"
| "subscript (JStr s) k = Inl (Exn TypeError ''string indices must be integers'')"
| "subscript (JArr xs) k = Inl (Exn TypeError ''list indices must be integers or slices, not str'')"
| "subscript j k = Inl (Exn TypeError ''object is not subscriptable'')"

text \<open>
  \<^verbatim>\<open>d.get(k, default)\<close>: only a dict has the method, every other JSON value raises
  \<^verbatim>\<open>AttributeError\<close>.
\<close>

fun dict_get :: "json \<Rightarrow> string \<Rightarrow> json \<Rightarrow> exn + json" where
  "dict_get (JObj kvs) k dflt =
     (case map_of kvs k of Some v \<Rightarrow> Inr v | None \<Rightarrow> Inr dflt)"
| "dict_get j k dflt = Inl (Exn AttributeError (''object has no attribute '' @ [CHR 0x27] @ ''get'' @ [CHR 0x27]))"

text \<open>Sequencing of computations that may raise: the first exception wins.\<close>

fun map_raising :: "('a \<Rightarrow> exn + 'b) \<Rightarrow> 'a list \<Rightarrow> exn + 'b list" where
  "map_raising f [] = Inr []"
| "map_raising f (x # xs) =
     (case f x of
        Inl e \<Rightarrow> Inl e
      | Inr y \<Rightarrow> (case map_raising f xs of Inl e \<Rightarrow> Inl e | Inr ys \<Rightarrow> Inr (y # ys)))"

section \<open>String literals of the sources\<close>

definition unsupported_platform_prefix :: string where
  \<comment> \<open>UTF-8 bytes of the literal in social_publisher.py, line 63\<close>
  "unsupported_platform_prefix =
     [CHR 0xEC, CHR 0xA7, CHR 0x80, CHR 0xEC, CHR 0x9B, CHR 0x90, CHR 0xEB, CHR 0x90,
      CHR 0x98, CHR 0xEC, CHR 0xA7, CHR 0x80, CHR 0x20, CHR 0xEC, CHR 0x95, CHR 0x8A,
      CHR 0xEB, CHR 0x8A, CHR 0x94, CHR 0x20, CHR 0xED, CHR 0x94, CHR 0x8C, CHR 0xEB,
      CHR 0x9E, CHR 0xAB, CHR 0xED, CHR 0x8F, CHR 0xBC, CHR 0xEC, CHR 0x9E, CHR 0x85,
      CHR 0xEB, CHR 0x8B, CHR 0x88, CHR 0xEB, CHR 0x8B, CHR 0xA4, CHR 0x3A, CHR 0x20]"

definition analysis_prompt :: string where
  \<comment> \<open>UTF-8 bytes of the literal in image_analyzer.py, lines 39-47\<close>
  "analysis_prompt =
     [CHR 0xEC, CHR 0x9D, CHR 0xB4, CHR 0x20, CHR 0xEA, CHR 0xBD, CHR 0x83, CHR 0x20,
      CHR 0xEC, CHR 0x9D, CHR 0xB4, CHR 0xEB, CHR 0xAF, CHR 0xB8, CHR 0xEC, CHR 0xA7,
      CHR 0x80, CHR 0xEB, CHR 0xA5, CHR 0xBC, CHR 0x20, CHR 0xEB, CHR 0xB6, CHR 0x84,
      CHR 0xEC, CHR 0x84, CHR 0x9D, CHR 0xED, CHR 0x95, CHR 0xB4, CHR 0xEC, CHR 0xA3,
      CHR 0xBC, CHR 0xEC, CHR 0x84, CHR 0xB8, CHR 0xEC, CHR 0x9A, CHR 0x94, CHR 0x2E,
      CHR 0x20, CHR 0xEB, CHR 0x8B, CHR 0xA4, CHR 0xEC, CHR 0x9D, CHR 0x8C, CHR 0x20,
      CHR 0xEC, CHR 0xA0, CHR 0x95, CHR 0xEB, CHR 0xB3, CHR 0xB4, CHR 0xEB, CHR 0xA5,
      CHR 0xBC] @
     '' JSON '' @
     [CHR 0xED, CHR 0x98, CHR 0x95, CHR 0xEC, CHR 0x8B, CHR 0x9D, CHR 0xEC, CHR 0x9C,
      CHR 0xBC, CHR 0xEB, CHR 0xA1, CHR 0x9C, CHR 0x20, CHR 0xEB, CHR 0xB0, CHR 0x98,
      CHR 0xED, CHR 0x99, CHR 0x98, CHR 0xED, CHR 0x95, CHR 0xB4, CHR 0xEC, CHR 0xA3,
      CHR 0xBC, CHR 0xEC, CHR 0x84, CHR 0xB8, CHR 0xEC, CHR 0x9A, CHR 0x94, CHR 0x3A,
      CHR 0x0A, CHR 0x31, CHR 0x2E, CHR 0x20, CHR 0xEA, CHR 0xBD, CHR 0x83, CHR 0xEC,
      CHR 0x9D, CHR 0x98, CHR 0x20, CHR 0xEC, CHR 0xA2, CHR 0x85, CHR 0xEB, CHR 0xA5,
      CHR 0x98, CHR 0x28, CHR 0xED, CHR 0x95, CHR 0x9C, CHR 0xEA, CHR 0xB5, CHR 0xAD,
      CHR 0xEC, CHR 0x96, CHR 0xB4, CHR 0x2C, CHR 0x20, CHR 0xEC, CHR 0x98, CHR 0x81,
      CHR 0xEC, CHR 0x96, CHR 0xB4, CHR 0x2C, CHR 0x20, CHR 0xED, CHR 0x95, CHR 0x99,
      CHR 0xEB, CHR 0xAA, CHR 0x85, CHR 0x29, CHR 0x0A, CHR 0x32, CHR 0x2E, CHR 0x20,
      CHR 0xEA, CHR 0xBD, CHR 0x83, CHR 0xEC, CHR 0x9D, CHR 0x98, CHR 0x20, CHR 0xEC,
      CHR 0xA3, CHR 0xBC, CHR 0xEC, CHR 0x9A, CHR 0x94, CHR 0x20, CHR 0xEC, CHR 0x83,
      CHR 0x89, CHR 0xEC, CHR 0x83, CHR 0x81, CHR 0x0A, CHR 0x33, CHR 0x2E, CHR 0x20,
      CHR 0xEA, CHR 0xBD, CHR 0x83, CHR 0xEC, CHR 0x9D, CHR 0x98, CHR 0x20, CHR 0xEA,
      CHR 0xB3, CHR 0x84, CHR 0xEC, CHR 0xA0, CHR 0x88, CHR 0xEC, CHR 0xA0, CHR 0x81,
      CHR 0x20, CHR 0xED, CHR 0x8A, CHR 0xB9, CHR 0xEC, CHR 0x84, CHR 0xB1, CHR 0x0A,
      CHR 0x34, CHR 0x2E, CHR 0x20, CHR 0xEA, CHR 0xBD, CHR 0x83, CHR 0xEB, CHR 0xA7,
      CHR 0x90, CHR 0x0A, CHR 0x35, CHR 0x2E, CHR 0x20, CHR 0xEA, CHR 0xB4, CHR 0x80,
      CHR 0xEB, CHR 0xA6, CHR 0xAC, CHR 0x20, CHR 0xED, CHR 0x8C, CHR 0x81, CHR 0x0A,
      CHR 0x36, CHR 0x2E, CHR 0x20, CHR 0xEC, CHR 0x9E, CHR 0xA5, CHR 0xEC, CHR 0x8B,
      CHR 0x9D, CHR 0x2F, CHR 0xEC, CHR 0x9D, CHR 0xB8, CHR 0xED, CHR 0x85, CHR 0x8C,
      CHR 0xEB, CHR 0xA6, CHR 0xAC, CHR 0xEC, CHR 0x96, CHR 0xB4, CHR 0x20, CHR 0xEC,
      CHR 0xA0, CHR 0x9C, CHR 0xEC, CHR 0x95, CHR 0x88, CHR 0x0A, CHR 0x37, CHR 0x2E,
      CHR 0x20, CHR 0xEC, CHR 0xA0, CHR 0x81, CHR 0xED, CHR 0x95, CHR 0xA9, CHR 0xED,
      CHR 0x95, CHR 0x9C, CHR 0x20, CHR 0xEC, CHR 0x84, CHR 0xA0, CHR 0xEB, CHR 0xAC,
      CHR 0xBC, CHR 0x20, CHR 0xEC, CHR 0x83, CHR 0x81, CHR 0xED, CHR 0x99, CHR 0xA9,
      CHR 0x0A, CHR 0xEC, CHR 0x98, CHR 0xA8, CHR 0xEC, CHR 0xA0, CHR 0x84, CHR 0xED,
      CHR 0x9E, CHR 0x88] @
     '' JSON '' @
     [CHR 0xED, CHR 0x98, CHR 0x95, CHR 0xEC, CHR 0x8B, CHR 0x9D, CHR 0xEC, CHR 0x9C,
      CHR 0xBC, CHR 0xEB, CHR 0xA1, CHR 0x9C, CHR 0xEB, CHR 0xA7, CHR 0x8C, CHR 0x20,
      CHR 0xEC, CHR 0x9D, CHR 0x91, CHR 0xEB, CHR 0x8B, CHR 0xB5, CHR 0xED, CHR 0x95,
      CHR 0xB4, CHR 0xEC, CHR 0xA3, CHR 0xBC, CHR 0xEC, CHR 0x84, CHR 0xB8, CHR 0xEC,
      CHR 0x9A, CHR 0x94, CHR 0x2E]"

definition analysis_error_prefix :: string where
  \<comment> \<open>UTF-8 bytes of the literal in image_analyzer.py, line 68\<close>
  "analysis_error_prefix =
     [CHR 0xEC, CHR 0x9D, CHR 0xB4, CHR 0xEB, CHR 0xAF, CHR 0xB8, CHR 0xEC, CHR 0xA7,
      CHR 0x80, CHR 0x20, CHR 0xEB, CHR 0xB6, CHR 0x84, CHR 0xEC, CHR 0x84, CHR 0x9D,
      CHR 0x20, CHR 0xEC, CHR 0xA4, CHR 0x91, CHR 0x20, CHR 0xEC, CHR 0x98, CHR 0xA4,
      CHR 0xEB, CHR 0xA5, CHR 0x98, CHR 0xEA, CHR 0xB0, CHR 0x80, CHR 0x20, CHR 0xEB,
      CHR 0xB0, CHR 0x9C, CHR 0xEC, CHR 0x83, CHR 0x9D, CHR 0xED, CHR 0x96, CHR 0x88,
      CHR 0xEC, CHR 0x8A, CHR 0xB5, CHR 0xEB, CHR 0x8B, CHR 0x88, CHR 0xEB, CHR 0x8B,
      CHR 0xA4, CHR 0x3A, CHR 0x20]"

definition unknown_ko :: string where
  \<comment> \<open>UTF-8 bytes of the literal in image_analyzer.py, lines 59-65\<close>
  "unknown_ko =
     [CHR 0xEC, CHR 0x95, CHR 0x8C, CHR 0x20, CHR 0xEC, CHR 0x88, CHR 0x98, CHR 0x20,
      CHR 0xEC, CHR 0x97, CHR 0x86, CHR 0xEC, CHR 0x9D, CHR 0x8C]"

definition find_error_prefix :: string where
  \<comment> \<open>UTF-8 bytes of the literal in repositories.py, line 73\<close>
  "find_error_prefix =
     [CHR 0xED, CHR 0x8F, CHR 0xAC, CHR 0xEC, CHR 0x8A, CHR 0xA4, CHR 0xED, CHR 0x8A,
      CHR 0xB8, CHR 0x20, CHR 0xEC, CHR 0xA1, CHR 0xB0, CHR 0xED, CHR 0x9A, CHR 0x8C,
      CHR 0x20, CHR 0xEC, CHR 0xA4, CHR 0x91, CHR 0x20, CHR 0xEC, CHR 0x98, CHR 0xA4,
      CHR 0xEB, CHR 0xA5, CHR 0x98, CHR 0xEA, CHR 0xB0, CHR 0x80, CHR 0x20, CHR 0xEB,
      CHR 0xB0, CHR 0x9C, CHR 0xEC, CHR 0x83, CHR 0x9D, CHR 0xED, CHR 0x96, CHR 0x88,
      CHR 0xEC, CHR 0x8A, CHR 0xB5, CHR 0xEB, CHR 0x8B, CHR 0x88, CHR 0xEB, CHR 0x8B,
      CHR 0xA4, CHR 0x3A, CHR 0x20]"


definition update_missing_prefix :: string where
  \<comment> \<open>UTF-8 bytes of the literal in repositories.py, line 133\<close>
  "update_missing_prefix =
     [CHR 0xEC, CHR 0x97, CHR 0x85, CHR 0xEB, CHR 0x8D, CHR 0xB0, CHR 0xEC, CHR 0x9D,
      CHR 0xB4, CHR 0xED, CHR 0x8A, CHR 0xB8, CHR 0xED, CHR 0x95, CHR 0xA0, CHR 0x20,
      CHR 0xED, CHR 0x8F, CHR 0xAC, CHR 0xEC, CHR 0x8A, CHR 0xA4, CHR 0xED, CHR 0x8A,
      CHR 0xB8, CHR 0xEB, CHR 0xA5, CHR 0xBC, CHR 0x20, CHR 0xEC, CHR 0xB0, CHR 0xBE,
      CHR 0xEC, CHR 0x9D, CHR 0x84, CHR 0x20, CHR 0xEC, CHR 0x88, CHR 0x98, CHR 0x20,
      CHR 0xEC, CHR 0x97, CHR 0x86, CHR 0xEC, CHR 0x8A, CHR 0xB5, CHR 0xEB, CHR 0x8B,
      CHR 0x88, CHR 0xEB, CHR 0x8B, CHR 0xA4, CHR 0x3A, CHR 0x20]"

definition update_error_prefix :: string where
  \<comment> \<open>UTF-8 bytes of the literal in repositories.py, line 147\<close>
  "update_error_prefix =
     [CHR 0xED, CHR 0x8F, CHR 0xAC, CHR 0xEC, CHR 0x8A, CHR 0xA4, CHR 0xED, CHR 0x8A,
      CHR 0xB8, CHR 0x20, CHR 0xEC, CHR 0x97, CHR 0x85, CHR 0xEB, CHR 0x8D, CHR 0xB0,
      CHR 0xEC, CHR 0x9D, CHR 0xB4, CHR 0xED, CHR 0x8A, CHR 0xB8, CHR 0x20, CHR 0xEC,
      CHR 0xA4, CHR 0x91, CHR 0x20, CHR 0xEC, CHR 0x98, CHR 0xA4, CHR 0xEB, CHR 0xA5,
      CHR 0x98, CHR 0xEA, CHR 0xB0, CHR 0x80, CHR 0x20, CHR 0xEB, CHR 0xB0, CHR 0x9C,
      CHR 0xEC, CHR 0x83, CHR 0x9D, CHR 0xED, CHR 0x96, CHR 0x88, CHR 0xEC, CHR 0x8A,
      CHR 0xB5, CHR 0xEB, CHR 0x8B, CHR 0x88, CHR 0xEB, CHR 0x8B, CHR 0xA4, CHR 0x3A,
      CHR 0x20]"


definition shorts_hashtags :: string where
  \<comment> \<open>UTF-8 bytes of the literal in tasks.py, line 124\<close>
  "shorts_hashtags =
     [CHR 0x0A, CHR 0x0A, CHR 0x23, CHR 0xEA, CHR 0xBD, CHR 0x83, CHR 0x20, CHR 0x23,
      CHR 0xED, CHR 0x94, CHR 0x8C, CHR 0xEB, CHR 0x9D, CHR 0xBC, CHR 0xEC, CHR 0x9B,
      CHR 0x8C, CHR 0x20, CHR 0x23, CHR 0xEC, CHR 0x87, CHR 0xBC, CHR 0xEC, CHR 0xB8,
      CHR 0xA0]"

definition unbound_post_message :: string where
  "unbound_post_message = ''local variable '' @ [CHR 0x27] @ ''post'' @ [CHR 0x27] @ '' referenced before assignment''"

section \<open>Entities (domain/entities.py)\<close>

datatype Platform = NAVER | INSTAGRAM | YOUTUBE

fun Platform_value :: "Platform \<Rightarrow> string" where
  "Platform_value NAVER = ''naver''"
| "Platform_value INSTAGRAM = ''instagram''"
| "Platform_value YOUTUBE = ''youtube''"

text \<open>The constructor call \<^verbatim>\<open>Platform(p)\<close> on a string: \<^verbatim>\<open>ValueError\<close> off the three values.\<close>

definition Platform_of :: "string \<Rightarrow> exn + Platform" where
  "Platform_of p =
     (if p = ''naver'' then Inr NAVER
      else if p = ''instagram'' then Inr INSTAGRAM
      else if p = ''youtube'' then Inr YOUTUBE
      else Inl (Exn ValueError ([CHR 0x27] @ p @ [CHR 0x27] @ '' is not a valid Platform'')))"

datatype PostStatus = PENDING | PROCESSING | COMPLETED | FAILED

fun PostStatus_value :: "PostStatus \<Rightarrow> string" where
  "PostStatus_value PENDING = ''pending''"
| "PostStatus_value PROCESSING = ''processing''"
| "PostStatus_value COMPLETED = ''completed''"
| "PostStatus_value FAILED = ''failed''"

record FlowerData =
  flower_type :: json
  colors :: json
  seasonal :: json
  meaning :: json
  care_tips :: json
  decoration_ideas :: json
  gift_occasions :: json

text \<open>\<^verbatim>\<open>FlowerData.from_dict\<close>: seven \<^verbatim>\<open>data.get\<close> calls, in the order of the keyword arguments.\<close>

definition FlowerData_from_dict :: "json \<Rightarrow> exn + FlowerData" where
  "FlowerData_from_dict data =
     (case dict_get data ''flower_type''
             (JObj [(''korean'', JStr ''''), (''english'', JStr ''''), (''scientific'', JStr '''')]) of
        Inl e \<Rightarrow> Inl e
      | Inr ft \<Rightarrow>
     (case dict_get data ''colors'' (JArr []) of Inl e \<Rightarrow> Inl e | Inr co \<Rightarrow>
     (case dict_get data ''seasonal'' (JStr '''') of Inl e \<Rightarrow> Inl e | Inr se \<Rightarrow>
     (case dict_get data ''meaning'' (JStr '''') of Inl e \<Rightarrow> Inl e | Inr me \<Rightarrow>
     (case dict_get data ''care_tips'' (JStr '''') of Inl e \<Rightarrow> Inl e | Inr ca \<Rightarrow>
     (case dict_get data ''decoration_ideas'' (JStr '''') of Inl e \<Rightarrow> Inl e | Inr de \<Rightarrow>
     (case dict_get data ''gift_occasions'' (JArr []) of Inl e \<Rightarrow> Inl e | Inr gi \<Rightarrow>
        Inr \<lparr>flower_type = ft, colors = co, seasonal = se, meaning = me,
             care_tips = ca, decoration_ideas = de, gift_occasions = gi\<rparr>)))))))"

definition FlowerData_to_dict :: "FlowerData \<Rightarrow> json" where
  "FlowerData_to_dict d =
     JObj [(''flower_type'', flower_type d), (''colors'', colors d),
           (''seasonal'', seasonal d), (''meaning'', meaning d),
           (''care_tips'', care_tips d), (''decoration_ideas'', decoration_ideas d),
           (''gift_occasions'', gift_occasions d)]"

record PublishResult =
  success :: bool
  platform :: Platform
  url :: "string option"
  post_id :: "string option"
  error :: "string option"

text \<open>
  The field \<^verbatim>\<open>flower_data: Optional[Union[FlowerData, Dict[str, Any]]]\<close>: a
  \<^verbatim>\<open>FlowerData\<close> object when the post is loaded from the store, the raw dict of the
  analysis once the pipeline has assigned it.
\<close>

datatype flower_value = FlowerDataObj FlowerData | FlowerDict json

text \<open>
  The dataclass \<^verbatim>\<open>FlowerPost\<close>. The field \<^verbatim>\<open>id\<close> is named \<^verbatim>\<open>post_key\<close> (\<^const>\<open>id\<close> is
  the identity function of HOL). A \<^verbatim>\<open>datetime\<close> is a natural number of clock ticks.
\<close>

record FlowerPost =
  post_key :: string
  image_paths :: "string list"
  platforms :: "Platform list"
  title :: "string option"
  description :: "string option"
  schedule_time :: nat
  status :: string
  error_message :: "string option"
  flower_data :: "flower_value option"
  blog_content :: "string option"
  instagram_caption :: "string option"
  instagram_tags :: "string list option"
  video_path :: "string option"
  publish_results :: "PublishResult list"
  created_at :: nat
  updated_at :: nat

section \<open>The world outside the process\<close>

text \<open>
  A value of a content dict handed to the publisher registry (\<^verbatim>\<open>Dict[str, Any]\<close>):
  the pipeline stores strings and lists of strings.
\<close>

datatype content_value = VStr string | VList "string list"

text \<open>The round trips of the SQLAlchemy session that reach the database.\<close>

datatype db_call = Query | Commit | Refresh

text \<open>Every call that leaves the process is recorded, in order, with its arguments.\<close>

datatype call =
    Db db_call
  | AnalyzeImage string string
  | GenerateBlogPost json "string list"
  | GenerateInstagramCaption json
  | GenerateTags json
  | CreateShortsVideo "string list" json string
  | PublishToNaver content_value content_value content_value
  | PublishToInstagram content_value content_value content_value
  | PublishToYoutube content_value content_value content_value content_value

text \<open>
  A row of the table \<^verbatim>\<open>flower_posts\<close> (\<^verbatim>\<open>FlowerPostModel\<close>, infrastructure/database/models.py),
  with the JSON columns typed as \<^verbatim>\<open>_map_to_model\<close> fills them. The primary key
  column \<^verbatim>\<open>id\<close> is the key under which the table holds the row. The row keeps the
  values it is given: the column defaults of the SQL layer are not modelled.
\<close>

record PublishResultDict =
  d_success :: bool
  d_platform :: string
  d_url :: "string option"
  d_post_id :: "string option"
  d_error :: "string option"

record FlowerPostModel =
  m_title :: "string option"
  m_description :: "string option"
  m_image_paths :: "string list"
  m_platforms :: "string list"
  m_schedule_time :: nat
  m_status :: string
  m_error_message :: "string option"
  m_flower_data :: "json option"
  m_blog_content :: "string option"
  m_instagram_caption :: "string option"
  m_instagram_tags :: "string list option"
  m_video_path :: "string option"
  m_publish_results :: "PublishResultDict list option"
  m_created_at :: nat
  m_updated_at :: nat

text \<open>Changes a session holds until \<^verbatim>\<open>commit\<close> writes them or \<^verbatim>\<open>rollback\<close> drops them.\<close>

datatype pending_op =
    Insert string FlowerPostModel
  | Modify string FlowerPostModel
  | Remove string

text \<open>
  The state a run acts on: \<^verbatim>\<open>ext\<close> is the state of everything outside the process (of
  any type), \<^verbatim>\<open>rows\<close> the committed table keyed by primary key, \<^verbatim>\<open>pending\<close> and
  \<^verbatim>\<open>closed\<close> the session, \<^verbatim>\<open>calls\<close> the record of the calls made so far.
\<close>

record 'x world =
  ext :: 'x
  rows :: "string \<rightharpoonup> FlowerPostModel"
  pending :: "pending_op list"
  closed :: bool
  calls :: "call list"

text \<open>
  The publisher registry holds one publisher per platform
  (\<^verbatim>\<open>SocialPublisherService.__init__\<close>); \<^const>\<open>None\<close> is a publisher object that is
  \<^verbatim>\<open>None\<close> or false. A publisher answers with a \<^verbatim>\<open>PublishResult\<close> or raises.
\<close>

record 'x SocialPublisherService =
  naver_publisher ::
    "(content_value \<Rightarrow> content_value \<Rightarrow> content_value \<Rightarrow> 'x
        \<Rightarrow> (exn + PublishResult) \<times> 'x) option"
  instagram_publisher ::
    "(content_value \<Rightarrow> content_value \<Rightarrow> content_value \<Rightarrow> 'x
        \<Rightarrow> (exn + PublishResult) \<times> 'x) option"
  youtube_publisher ::
    "(content_value \<Rightarrow> content_value \<Rightarrow> content_value \<Rightarrow> content_value \<Rightarrow> 'x
        \<Rightarrow> (exn + PublishResult) \<times> 'x) option"

text \<open>
  The collaborators of a run, each a function of the outside state that answers or raises:
  the database behind the session (\<^verbatim>\<open>db_io\<close> says whether a round trip raises), the
  clock (\<^verbatim>\<open>datetime.now\<close>), the Claude client behind the analysis gateway, the content
  generator and the video generator behind their interfaces (core/interfaces), and what
  the three publishers of infrastructure/external do inside their \<^verbatim>\<open>try\<close> blocks: the
  browser session that posts to the blog and answers the URL of the post, the Graph API
  calls that answer the id of the post, the checks of the video upload.
  \<^verbatim>\<open>py_str\<close> is Python's formatting of a JSON value inside an f-string.
\<close>

record 'x env =
  db_io :: "db_call \<Rightarrow> 'x \<Rightarrow> exn option \<times> 'x"
  now :: "'x \<Rightarrow> nat \<times> 'x"
  py_str :: "json \<Rightarrow> string"
  claude_analyze_image :: "string \<Rightarrow> string \<Rightarrow> 'x \<Rightarrow> (exn + json) \<times> 'x"
  generate_blog_post :: "json \<Rightarrow> string list \<Rightarrow> 'x \<Rightarrow> (exn + string) \<times> 'x"
  generate_instagram_caption :: "json \<Rightarrow> 'x \<Rightarrow> (exn + string) \<times> 'x"
  generate_tags :: "json \<Rightarrow> 'x \<Rightarrow> (exn + string list) \<times> 'x"
  create_shorts_video :: "string list \<Rightarrow> json \<Rightarrow> string \<Rightarrow> 'x \<Rightarrow> (exn + string) \<times> 'x"
  naver_session ::
    "content_value \<Rightarrow> content_value \<Rightarrow> content_value \<Rightarrow> 'x \<Rightarrow> (exn + string) \<times> 'x"
  instagram_api ::
    "content_value \<Rightarrow> content_value \<Rightarrow> content_value \<Rightarrow> 'x \<Rightarrow> (exn + string) \<times> 'x"
  youtube_checks ::
    "content_value \<Rightarrow> content_value \<Rightarrow> content_value \<Rightarrow> content_value \<Rightarrow> 'x
       \<Rightarrow> (exn + unit) \<times> 'x"

definition external :: "call \<Rightarrow> ('x \<Rightarrow> 'a \<times> 'x) \<Rightarrow> 'x world \<Rightarrow> 'a \<times> 'x world" where
  "external c f w =
     (case f (ext w) of (r, x) \<Rightarrow> (r, w\<lparr>ext := x, calls := calls w @ [c]\<rparr>))"

definition datetime_now :: "'x env \<Rightarrow> 'x world \<Rightarrow> nat \<times> 'x world" where
  "datetime_now env w = (case now env (ext w) of (t, x) \<Rightarrow> (t, w\<lparr>ext := x\<rparr>))"

section \<open>Methods of the entity (domain/entities.py, lines 100-110)\<close>

definition update_status ::
  "'x env \<Rightarrow> PostStatus \<Rightarrow> string option \<Rightarrow> FlowerPost \<Rightarrow> 'x world \<Rightarrow> FlowerPost \<times> 'x world" where
  "update_status env st err post w =
     (let post1 = post\<lparr>status := PostStatus_value st\<rparr>;
          post2 = (if str_truthy err then post1\<lparr>error_message := err\<rparr> else post1)
      in case datetime_now env w of (t, w') \<Rightarrow> (post2\<lparr>updated_at := t\<rparr>, w'))"

definition add_publish_result ::
  "'x env \<Rightarrow> PublishResult \<Rightarrow> FlowerPost \<Rightarrow> 'x world \<Rightarrow> FlowerPost \<times> 'x world" where
  "add_publish_result env result post w =
     (let post1 = post\<lparr>publish_results := publish_results post @ [result]\<rparr>
      in case datetime_now env w of (t, w') \<Rightarrow> (post1\<lparr>updated_at := t\<rparr>, w'))"

section \<open>The session\<close>

text \<open>
  \<^verbatim>\<open>query(...).filter(id == k).first()\<close>, \<^verbatim>\<open>commit\<close> and \<^verbatim>\<open>refresh\<close> reach the database and
  raise what it raises. \<^verbatim>\<open>commit\<close> writes the pending changes in order, all or none; an
  insert under a primary key that exists is an \<^verbatim>\<open>IntegrityError\<close>. \<^verbatim>\<open>rollback\<close> and
  \<^verbatim>\<open>close\<close> drop the pending changes and are taken not to raise.
\<close>

fun flush :: "(string \<rightharpoonup> FlowerPostModel) \<Rightarrow> pending_op list \<Rightarrow> exn + (string \<rightharpoonup> FlowerPostModel)" where
  "flush rs [] = Inr rs"
| "flush rs (Insert k r # ops) =
     (if rs k \<noteq> None then Inl (Exn IntegrityError ''UNIQUE constraint failed: flower_posts.id'')
      else flush (rs(k \<mapsto> r)) ops)"
| "flush rs (Modify k r # ops) = flush (rs(k \<mapsto> r)) ops"
| "flush rs (Remove k # ops) = flush (rs(k := None)) ops"

definition query_first :: "'x env \<Rightarrow> string \<Rightarrow> 'x world \<Rightarrow> (exn + FlowerPostModel option) \<times> 'x world" where
  "query_first env k w =
     (case external (Db Query) (db_io env Query) w of
        (Some e, w1) \<Rightarrow> (Inl e, w1)
      | (None, w1) \<Rightarrow> (Inr (rows w1 k), w1))"

definition commit :: "'x env \<Rightarrow> 'x world \<Rightarrow> (exn + unit) \<times> 'x world" where
  "commit env w =
     (case external (Db Commit) (db_io env Commit) w of
        (Some e, w1) \<Rightarrow> (Inl e, w1)
      | (None, w1) \<Rightarrow>
          (case flush (rows w1) (pending w1) of
             Inl e \<Rightarrow> (Inl e, w1)
           | Inr rs \<Rightarrow> (Inr (), w1\<lparr>rows := rs, pending := []\<rparr>)))"

definition refresh :: "'x env \<Rightarrow> string \<Rightarrow> 'x world \<Rightarrow> (exn + FlowerPostModel) \<times> 'x world" where
  "refresh env k w =
     (case external (Db Refresh) (db_io env Refresh) w of
        (Some e, w1) \<Rightarrow> (Inl e, w1)
      | (None, w1) \<Rightarrow>
          (case rows w1 k of
             None \<Rightarrow> (Inl (Exn InvalidRequestError ''Could not refresh instance''), w1)
           | Some r \<Rightarrow> (Inr r, w1)))"

definition rollback :: "'x world \<Rightarrow> 'x world" where
  "rollback w = w\<lparr>pending := []\<rparr>"

definition close :: "'x world \<Rightarrow> 'x world" where
  "close w = w\<lparr>pending := [], closed := True\<rparr>"

section \<open>The repository (infrastructure/database/repositories.py)\<close>

text \<open>
  \<^verbatim>\<open>_map_to_entity\<close>, lines 175-224, of the row held under the key \<open>k\<close>: platforms,
  then flower data, then publish results.
\<close>

definition result_of_dict :: "PublishResultDict \<Rightarrow> exn + PublishResult" where
  "result_of_dict d =
     (case Platform_of (d_platform d) of
        Inl e \<Rightarrow> Inl e
      | Inr p \<Rightarrow> Inr \<lparr>success = d_success d, platform = p, url = d_url d,
                     post_id = d_post_id d, error = d_error d\<rparr>)"

definition map_to_entity :: "string \<Rightarrow> FlowerPostModel \<Rightarrow> exn + FlowerPost" where
  "map_to_entity k db_post =
     (case map_raising Platform_of (m_platforms db_post) of
        Inl e \<Rightarrow> Inl e
      | Inr ps \<Rightarrow>
     (case (case m_flower_data db_post of
              None \<Rightarrow> Inr None
            | Some j \<Rightarrow>
                if json_truthy j
                then (case FlowerData_from_dict j of
                        Inl e \<Rightarrow> Inl e
                      | Inr d \<Rightarrow> Inr (Some (FlowerDataObj d)))
                else Inr None) of
        Inl e \<Rightarrow> Inl e
      | Inr fd \<Rightarrow>
     (case (case m_publish_results db_post of
              None \<Rightarrow> Inr []
            | Some ds \<Rightarrow> map_raising result_of_dict ds) of
        Inl e \<Rightarrow> Inl e
      | Inr prs \<Rightarrow>
          Inr \<lparr>post_key = k,
               image_paths = m_image_paths db_post,
               platforms = ps,
               title = m_title db_post,
               description = m_description db_post,
               schedule_time = m_schedule_time db_post,
               status = m_status db_post,
               error_message = m_error_message db_post,
               flower_data = fd,
               blog_content = m_blog_content db_post,
               instagram_caption = m_instagram_caption db_post,
               instagram_tags = m_instagram_tags db_post,
               video_path = m_video_path db_post,
               publish_results = prs,
               created_at = m_created_at db_post,
               updated_at = m_updated_at db_post\<rparr>)))"

text \<open>\<^verbatim>\<open>_map_to_model\<close>, lines 226-277; the id of the post is the key of the row.\<close>

definition dict_of_result :: "PublishResult \<Rightarrow> PublishResultDict" where
  "dict_of_result r =
     \<lparr>d_success = success r, d_platform = Platform_value (platform r), d_url = url r,
      d_post_id = post_id r, d_error = error r\<rparr>"

definition map_to_model :: "FlowerPost \<Rightarrow> FlowerPostModel" where
  "map_to_model post =
     \<lparr>m_title = title post,
      m_description = description post,
      m_image_paths = image_paths post,
      m_platforms = map Platform_value (platforms post),
      m_schedule_time = schedule_time post,
      m_status = status post,
      m_error_message = error_message post,
      m_flower_data =
        (case flower_data post of
           None \<Rightarrow> None
         | Some (FlowerDataObj d) \<Rightarrow> Some (FlowerData_to_dict d)
         | Some (FlowerDict j) \<Rightarrow> (if json_truthy j then Some j else None)),
      m_blog_content = blog_content post,
      m_instagram_caption = instagram_caption post,
      m_instagram_tags = instagram_tags post,
      m_video_path = video_path post,
      m_publish_results =
        (if publish_results post = [] then None
         else Some (map dict_of_result (publish_results post))),
      m_created_at = created_at post,
      m_updated_at = updated_at post\<rparr>"

text \<open>
  The \<^verbatim>\<open>except Exception\<close> clause of \<^verbatim>\<open>save\<close>, \<^verbatim>\<open>update\<close> and \<^verbatim>\<open>delete\<close>: roll back,
  then raise \<^verbatim>\<open>RepositoryError\<close> with the text of the exception caught.
\<close>

definition rollback_and_raise :: "string \<Rightarrow> exn \<Rightarrow> 'x world \<Rightarrow> (exn + 'a) \<times> 'x world" where
  "rollback_and_raise prefix e w = (Inl (Exn RepositoryError (prefix @ str e)), rollback w)"

definition find_by_id :: "'x env \<Rightarrow> string \<Rightarrow> 'x world \<Rightarrow> (exn + FlowerPost option) \<times> 'x world" where
  "find_by_id env k w =
     (case query_first env k w of
        (Inl e, w1) \<Rightarrow> (Inl (Exn RepositoryError (find_error_prefix @ str e)), w1)
      | (Inr None, w1) \<Rightarrow> (Inr None, w1)
      | (Inr (Some db_post), w1) \<Rightarrow>
          (case map_to_entity k db_post of
             Inl e \<Rightarrow> (Inl (Exn RepositoryError (find_error_prefix @ str e)), w1)
           | Inr post \<Rightarrow> (Inr (Some post), w1)))"


definition update :: "'x env \<Rightarrow> FlowerPost \<Rightarrow> 'x world \<Rightarrow> (exn + FlowerPost) \<times> 'x world" where
  "update env post w =
     (case query_first env (post_key post) w of
        (Inl e, w1) \<Rightarrow> rollback_and_raise update_error_prefix e w1
      | (Inr None, w1) \<Rightarrow>
          rollback_and_raise update_error_prefix
            (Exn RepositoryError (update_missing_prefix @ post_key post)) w1
      | (Inr (Some db_post), w1) \<Rightarrow>
          (let updated_post = map_to_model post;
               w2 = w1\<lparr>pending := pending w1 @ [Modify (post_key post) updated_post]\<rparr>
           in case commit env w2 of
                (Inl e, w3) \<Rightarrow> rollback_and_raise update_error_prefix e w3
              | (Inr u, w3) \<Rightarrow>
                  (case refresh env (post_key post) w3 of
                     (Inl e, w4) \<Rightarrow> rollback_and_raise update_error_prefix e w4
                   | (Inr r, w4) \<Rightarrow>
                       (case map_to_entity (post_key post) r of
                          Inl e \<Rightarrow> rollback_and_raise update_error_prefix e w4
                        | Inr p \<Rightarrow> (Inr p, w4)))))"


section \<open>The publisher registry (core/services/social_publisher.py, lines 40-100)\<close>

text \<open>\<^verbatim>\<open>content.get(k, default)\<close> on the content dict.\<close>

definition content_get :: "(string \<times> content_value) list \<Rightarrow> string \<Rightarrow> content_value \<Rightarrow> content_value" where
  "content_get content k dflt = (case map_of content k of Some v \<Rightarrow> v | None \<Rightarrow> dflt)"

text \<open>The \<^verbatim>\<open>try\<close> block of \<^verbatim>\<open>publish\<close>, lines 61-92.\<close>

definition publish_try ::
  "'x SocialPublisherService \<Rightarrow> Platform \<Rightarrow> (string \<times> content_value) list \<Rightarrow> 'x world
     \<Rightarrow> (exn + PublishResult) \<times> 'x world" where
  "publish_try svc p content w =
     (case p of
        NAVER \<Rightarrow>
          (case naver_publisher svc of
             None \<Rightarrow>
               (Inl (Exn PublishingError (unsupported_platform_prefix @ Platform_value p)), w)
           | Some publisher \<Rightarrow>
               (let a = content_get content ''title'' (VStr '''');
                    b = content_get content ''blog_content'' (VStr '''');
                    c = content_get content ''image_paths'' (VList [])
                in external (PublishToNaver a b c) (publisher a b c) w))
      | INSTAGRAM \<Rightarrow>
          (case instagram_publisher svc of
             None \<Rightarrow>
               (Inl (Exn PublishingError (unsupported_platform_prefix @ Platform_value p)), w)
           | Some publisher \<Rightarrow>
               (let a = content_get content ''instagram_caption'' (VStr '''');
                    b = content_get content ''instagram_tags'' (VList []);
                    c = content_get content ''image_paths'' (VList [])
                in external (PublishToInstagram a b c) (publisher a b c) w))
      | YOUTUBE \<Rightarrow>
          (case youtube_publisher svc of
             None \<Rightarrow>
               (Inl (Exn PublishingError (unsupported_platform_prefix @ Platform_value p)), w)
           | Some publisher \<Rightarrow>
               (let a = content_get content ''video_path'' (VStr '''');
                    b = content_get content ''title'' (VStr '''');
                    c = content_get content ''description'' (VStr '''');
                    d = content_get content ''tags'' (VList [])
                in external (PublishToYoutube a b c d) (publisher a b c d) w)))"

text \<open>The result built by the \<^verbatim>\<open>except Exception\<close> clause, lines 96-100.\<close>

definition failed_result :: "Platform \<Rightarrow> exn \<Rightarrow> PublishResult" where
  "failed_result p e =
     \<lparr>success = False, platform = p, url = None, post_id = None, error = Some (str e)\<rparr>"

definition publish ::
  "'x SocialPublisherService \<Rightarrow> Platform \<Rightarrow> (string \<times> content_value) list \<Rightarrow> 'x world
     \<Rightarrow> PublishResult \<times> 'x world" where
  "publish svc p content w =
     (case publish_try svc p content w of
        (Inr result, w1) \<Rightarrow> (result, w1)
      | (Inl e, w1) \<Rightarrow> (failed_result p e, w1))"

section \<open>The publishers (infrastructure/external) and their wiring (app/dependencies.py)\<close>

text \<open>
  \<^verbatim>\<open>NaverBlogPublisher.publish_to_naver\<close>, \<^verbatim>\<open>InstagramPublisher.publish_to_instagram\<close> and
  \<^verbatim>\<open>YoutubePublisher.publish_to_youtube\<close>: the \<^verbatim>\<open>try\<close> block answers a successful
  result, the \<^verbatim>\<open>except Exception\<close> clause a failed one, both tagged with the platform
  of the publisher.
\<close>

definition publish_to_naver ::
  "'x env \<Rightarrow> content_value \<Rightarrow> content_value \<Rightarrow> content_value \<Rightarrow> 'x
     \<Rightarrow> (exn + PublishResult) \<times> 'x" where
  "publish_to_naver env ttl content imgs x =
     (case naver_session env ttl content imgs x of
        (Inr post_url, x1) \<Rightarrow>
          (Inr \<lparr>success = True, platform = NAVER, url = Some post_url,
                post_id = None, error = None\<rparr>, x1)
      | (Inl e, x1) \<Rightarrow>
          (Inr \<lparr>success = False, platform = NAVER, url = None,
                post_id = None, error = Some (str e)\<rparr>, x1))"

definition publish_to_instagram ::
  "'x env \<Rightarrow> content_value \<Rightarrow> content_value \<Rightarrow> content_value \<Rightarrow> 'x
     \<Rightarrow> (exn + PublishResult) \<times> 'x" where
  "publish_to_instagram env caption hashtags imgs x =
     (case instagram_api env caption hashtags imgs x of
        (Inr pid, x1) \<Rightarrow>
          (Inr \<lparr>success = True, platform = INSTAGRAM,
                url = Some (''https://www.instagram.com/p/'' @ pid),
                post_id = Some pid, error = None\<rparr>, x1)
      | (Inl e, x1) \<Rightarrow>
          (Inr \<lparr>success = False, platform = INSTAGRAM, url = None,
                post_id = None, error = Some (str e)\<rparr>, x1))"

definition publish_to_youtube ::
  "'x env \<Rightarrow> content_value \<Rightarrow> content_value \<Rightarrow> content_value \<Rightarrow> content_value \<Rightarrow> 'x
     \<Rightarrow> (exn + PublishResult) \<times> 'x" where
  "publish_to_youtube env vpath ttl descr tags x =
     (case youtube_checks env vpath ttl descr tags x of
        (Inr u, x1) \<Rightarrow>
          (Inr \<lparr>success = True, platform = YOUTUBE,
                url = Some (''https://youtube.com/shorts/'' @ ''sample_video_id''),
                post_id = Some ''sample_video_id'', error = None\<rparr>, x1)
      | (Inl e, x1) \<Rightarrow>
          (Inr \<lparr>success = False, platform = YOUTUBE, url = None,
                post_id = None, error = Some (str e)\<rparr>, x1))"

text \<open>\<^verbatim>\<open>get_social_publishers\<close>, app/dependencies.py, lines 49-71.\<close>

definition get_social_publishers :: "'x env \<Rightarrow> 'x SocialPublisherService" where
  "get_social_publishers env =
     \<lparr>naver_publisher = Some (publish_to_naver env),
      instagram_publisher = Some (publish_to_instagram env),
      youtube_publisher = Some (publish_to_youtube env)\<rparr>"

section \<open>The analysis gateway (core/services/image_analyzer.py, lines 24-68)\<close>

definition default_data :: json where
  "default_data =
     JObj [(''flower_type'',
              JObj [(''korean'', JStr unknown_ko), (''english'', JStr ''Unknown''),
                    (''scientific'', JStr '''')]),
           (''colors'', JArr [JStr unknown_ko]),
           (''seasonal'', JStr unknown_ko),
           (''meaning'', JStr unknown_ko),
           (''care_tips'', JStr unknown_ko),
           (''decoration_ideas'', JStr unknown_ko),
           (''gift_occasions'', JArr [JStr unknown_ko])]"

text \<open>The exception raised by the \<^verbatim>\<open>except Exception\<close> clause, line 68.\<close>

definition analysis_error :: "exn \<Rightarrow> exn" where
  "analysis_error e =
     Exn (ImageAnalysisError (Some default_data)) (analysis_error_prefix @ str e)"

text \<open>
  The client is called with the image path and the prompt; the log line of the \<^verbatim>\<open>try\<close>
  block reads \<^verbatim>\<open>flower_data.get('flower_type', {}).get('korean', ...)\<close>, which raises on
  an answer that is not a dict or whose \<^verbatim>\<open>flower_type\<close> is not one.
\<close>

definition analyze_flower_image :: "'x env \<Rightarrow> string \<Rightarrow> 'x world \<Rightarrow> (exn + json) \<times> 'x world" where
  "analyze_flower_image env image_path w =
     (case external (AnalyzeImage image_path analysis_prompt)
             (claude_analyze_image env image_path analysis_prompt) w of
        (Inl e, w1) \<Rightarrow> (Inl (analysis_error e), w1)
      | (Inr fd, w1) \<Rightarrow>
          (case dict_get fd ''flower_type'' (JObj []) of
             Inl e \<Rightarrow> (Inl (analysis_error e), w1)
           | Inr ft \<Rightarrow>
               (case dict_get ft ''korean'' (JStr unknown_ko) of
                  Inl e \<Rightarrow> (Inl (analysis_error e), w1)
                | Inr ko \<Rightarrow> (Inr fd, w1))))"

section \<open>The pipeline (workers/tasks.py, process_flower_content)\<close>

text \<open>
  The value the task returns: \<^verbatim>\<open>{"success": False, "error": ...}\<close> or
  \<^verbatim>\<open>{"success": True, "post_id": ..., "results": ...}\<close>. The dict \<^verbatim>\<open>results\<close> is an
  association list in insertion order; an assignment to a key it has replaces the value.
\<close>

datatype outcome =
    Failure string
  | Success string "(string \<times> PublishResult) list"

fun dict_set :: "string \<Rightarrow> 'v \<Rightarrow> (string \<times> 'v) list \<Rightarrow> (string \<times> 'v) list" where
  "dict_set k v [] = [(k, v)]"
| "dict_set k v ((k', v') # kvs) =
     (if k = k' then (k, v) # kvs else (k', v') # dict_set k v kvs)"

text \<open>The titles and the description built from the analysis, lines 78, 123 and 124.\<close>

definition naver_title :: "'x env \<Rightarrow> FlowerPost \<Rightarrow> json \<Rightarrow> exn + string" where
  "naver_title env post fd =
     (if str_truthy (title post) then Inr (the (title post))
      else (case subscript fd ''flower_type'' of Inl e \<Rightarrow> Inl e | Inr ft \<Rightarrow>
           (case subscript ft ''korean'' of Inl e \<Rightarrow> Inl e | Inr ko \<Rightarrow>
           (case subscript fd ''meaning'' of Inl e \<Rightarrow> Inl e | Inr me \<Rightarrow>
              Inr (py_str env ko @ '' - '' @ py_str env me)))))"

definition youtube_title :: "'x env \<Rightarrow> FlowerPost \<Rightarrow> json \<Rightarrow> exn + string" where
  "youtube_title env post fd =
     (if str_truthy (title post) then Inr (the (title post))
      else (case subscript fd ''flower_type'' of Inl e \<Rightarrow> Inl e | Inr ft \<Rightarrow>
           (case subscript ft ''korean'' of Inl e \<Rightarrow> Inl e | Inr ko \<Rightarrow>
           (case subscript fd ''flower_type'' of Inl e \<Rightarrow> Inl e | Inr ft' \<Rightarrow>
           (case subscript ft' ''english'' of Inl e \<Rightarrow> Inl e | Inr en \<Rightarrow>
              Inr (py_str env ko @ '' - '' @ py_str env en))))))"

definition youtube_description :: "'x env \<Rightarrow> json \<Rightarrow> exn + string" where
  "youtube_description env fd =
     (case subscript fd ''flower_type'' of Inl e \<Rightarrow> Inl e | Inr ft \<Rightarrow>
     (case subscript ft ''korean'' of Inl e \<Rightarrow> Inl e | Inr ko \<Rightarrow>
     (case subscript fd ''flower_type'' of Inl e \<Rightarrow> Inl e | Inr ft' \<Rightarrow>
     (case subscript ft' ''english'' of Inl e \<Rightarrow> Inl e | Inr en \<Rightarrow>
     (case subscript fd ''meaning'' of Inl e \<Rightarrow> Inl e | Inr me \<Rightarrow>
        Inr (py_str env ko @ '' ('' @ py_str env en @ '') - '' @ py_str env me
               @ shorts_hashtags))))))"

text \<open>
  The three branches of the loop body. Each returns the exception that leaves it, if
  any, with the local \<^verbatim>\<open>post\<close>, the dict \<^verbatim>\<open>results\<close> and the world as they are at that
  point. No branch has a \<^verbatim>\<open>try\<close> of its own.
\<close>

type_synonym 'x loop_state = "FlowerPost \<times> (string \<times> PublishResult) list \<times> 'x world"

definition naver_branch :: "'x env \<Rightarrow> json \<Rightarrow> 'x loop_state \<Rightarrow> exn option \<times> 'x loop_state" where
  "naver_branch env fd st =
     (case st of (post, results, w) \<Rightarrow>
     (case external (GenerateBlogPost fd (image_paths post))
             (generate_blog_post env fd (image_paths post)) w of
        (Inl e, w1) \<Rightarrow> (Some e, post, results, w1)
      | (Inr blog, w1) \<Rightarrow>
     (let post1 = post\<lparr>blog_content := Some blog\<rparr> in
     (case update env post1 w1 of
        (Inl e, w2) \<Rightarrow> (Some e, post1, results, w2)
      | (Inr u, w2) \<Rightarrow>
     (case naver_title env post1 fd of
        Inl e \<Rightarrow> (Some e, post1, results, w2)
      | Inr ttl \<Rightarrow>
     (case publish (get_social_publishers env) NAVER
             [(''title'', VStr ttl), (''blog_content'', VStr blog),
              (''image_paths'', VList (image_paths post1))] w2 of
        (naver_result, w3) \<Rightarrow>
     (case add_publish_result env naver_result post1 w3 of
        (post2, w4) \<Rightarrow>
     (case update env post2 w4 of
        (Inl e, w5) \<Rightarrow> (Some e, post2, results, w5)
      | (Inr u', w5) \<Rightarrow> (None, post2, dict_set ''naver'' naver_result results, w5)))))))))"

definition instagram_branch :: "'x env \<Rightarrow> json \<Rightarrow> 'x loop_state \<Rightarrow> exn option \<times> 'x loop_state" where
  "instagram_branch env fd st =
     (case st of (post, results, w) \<Rightarrow>
     (case external (GenerateInstagramCaption fd) (generate_instagram_caption env fd) w of
        (Inl e, w1) \<Rightarrow> (Some e, post, results, w1)
      | (Inr caption, w1) \<Rightarrow>
     (case external (GenerateTags fd) (generate_tags env fd) w1 of
        (Inl e, w2) \<Rightarrow> (Some e, post, results, w2)
      | (Inr hashtags, w2) \<Rightarrow>
     (let post1 = post\<lparr>instagram_caption := Some caption, instagram_tags := Some hashtags\<rparr> in
     (case update env post1 w2 of
        (Inl e, w3) \<Rightarrow> (Some e, post1, results, w3)
      | (Inr u, w3) \<Rightarrow>
     (case publish (get_social_publishers env) INSTAGRAM
             [(''instagram_caption'', VStr caption), (''instagram_tags'', VList hashtags),
              (''image_paths'', VList (image_paths post1))] w3 of
        (instagram_result, w4) \<Rightarrow>
     (case add_publish_result env instagram_result post1 w4 of
        (post2, w5) \<Rightarrow>
     (case update env post2 w5 of
        (Inl e, w6) \<Rightarrow> (Some e, post2, results, w6)
      | (Inr u', w6) \<Rightarrow>
          (None, post2, dict_set ''instagram'' instagram_result results, w6)))))))))"

definition youtube_branch ::
  "'x env \<Rightarrow> string \<Rightarrow> json \<Rightarrow> 'x loop_state \<Rightarrow> exn option \<times> 'x loop_state" where
  "youtube_branch env pid fd st =
     (case st of (post, results, w) \<Rightarrow>
     (let vpath = ''uploads/'' @ pid @ ''/shorts_video.mp4'' in
     (case external (CreateShortsVideo (image_paths post) fd vpath)
             (create_shorts_video env (image_paths post) fd vpath) w of
        (Inl e, w1) \<Rightarrow> (Some e, post, results, w1)
      | (Inr made, w1) \<Rightarrow>
     (let post1 = post\<lparr>video_path := Some vpath\<rparr> in
     (case update env post1 w1 of
        (Inl e, w2) \<Rightarrow> (Some e, post1, results, w2)
      | (Inr u, w2) \<Rightarrow>
     (case youtube_title env post1 fd of
        Inl e \<Rightarrow> (Some e, post1, results, w2)
      | Inr ttl \<Rightarrow>
     (case youtube_description env fd of
        Inl e \<Rightarrow> (Some e, post1, results, w2)
      | Inr descr \<Rightarrow>
     (case external (GenerateTags fd) (generate_tags env fd) w2 of
        (Inl e, w3) \<Rightarrow> (Some e, post1, results, w3)
      | (Inr tags, w3) \<Rightarrow>
     (case publish (get_social_publishers env) YOUTUBE
             [(''video_path'', VStr vpath), (''title'', VStr ttl),
              (''description'', VStr descr), (''tags'', VList tags)] w3 of
        (youtube_result, w4) \<Rightarrow>
     (case add_publish_result env youtube_result post1 w4 of
        (post2, w5) \<Rightarrow>
     (case update env post2 w5 of
        (Inl e, w6) \<Rightarrow> (Some e, post2, results, w6)
      | (Inr u', w6) \<Rightarrow>
          (None, post2, dict_set ''youtube'' youtube_result results, w6))))))))))))"

definition platform_step ::
  "'x env \<Rightarrow> string \<Rightarrow> json \<Rightarrow> Platform \<Rightarrow> 'x loop_state \<Rightarrow> exn option \<times> 'x loop_state" where
  "platform_step env pid fd p st =
     (if p = NAVER then naver_branch env fd st
      else if p = INSTAGRAM then instagram_branch env fd st
      else if p = YOUTUBE then youtube_branch env pid fd st
      else (None, st))"

text \<open>\<^verbatim>\<open>for platform in post.platforms\<close>, lines 68-140: an exception ends the loop.\<close>

fun platform_loop ::
  "'x env \<Rightarrow> string \<Rightarrow> json \<Rightarrow> Platform list \<Rightarrow> 'x loop_state \<Rightarrow> exn option \<times> 'x loop_state" where
  "platform_loop env pid fd [] st = (None, st)"
| "platform_loop env pid fd (p # ps) st =
     (case platform_step env pid fd p st of
        (Some e, st1) \<Rightarrow> (Some e, st1)
      | (None, st1) \<Rightarrow> platform_loop env pid fd ps st1)"

text \<open>
  The \<^verbatim>\<open>try\<close> block in four stages. Each returns, beside its result, the local variable
  \<^verbatim>\<open>post\<close> as the handlers will find it: \<^const>\<open>None\<close> while it is unbound.

  Lines 49-55: load the post, mark it as processing, write it. The result
  \<^term>\<open>Inr None\<close> is the early return of line 51.
\<close>

definition pickup ::
  "'x env \<Rightarrow> string \<Rightarrow> 'x world \<Rightarrow> (exn + FlowerPost option) \<times> FlowerPost option \<times> 'x world" where
  "pickup env pid w =
     (case find_by_id env pid w of
        (Inl e, w1) \<Rightarrow> (Inl e, None, w1)
      | (Inr None, w1) \<Rightarrow> (Inr None, None, w1)
      | (Inr (Some post), w1) \<Rightarrow>
          (case update_status env PROCESSING None post w1 of
             (post1, w2) \<Rightarrow>
          (case update env post1 w2 of
             (Inl e, w3) \<Rightarrow> (Inl e, Some post1, w3)
           | (Inr u, w3) \<Rightarrow> (Inr (Some post1), Some post1, w3))))"

text \<open>Lines 58-63: analyse the first image, store the answer on the post, write it.\<close>

definition analysis ::
  "'x env \<Rightarrow> FlowerPost \<Rightarrow> 'x world \<Rightarrow> (exn + json) \<times> FlowerPost \<times> 'x world" where
  "analysis env post w =
     (case image_paths post of
        [] \<Rightarrow> (Inl (Exn IndexError ''list index out of range''), post, w)
      | main_image # others \<Rightarrow>
          (case analyze_flower_image env main_image w of
             (Inl e, w1) \<Rightarrow> (Inl e, post, w1)
           | (Inr fd, w1) \<Rightarrow>
               (let post1 = post\<lparr>flower_data := Some (FlowerDict fd)\<rparr> in
                case update env post1 w1 of
                  (Inl e, w2) \<Rightarrow> (Inl e, post1, w2)
                | (Inr u, w2) \<Rightarrow> (Inr fd, post1, w2))))"

text \<open>Lines 143-147: mark the post as completed, write it, return the results.\<close>

definition complete ::
  "'x env \<Rightarrow> string \<Rightarrow> 'x loop_state \<Rightarrow> (exn + outcome) \<times> FlowerPost \<times> 'x world" where
  "complete env pid st =
     (case st of (post, results, w) \<Rightarrow>
     (case update_status env COMPLETED None post w of
        (post1, w1) \<Rightarrow>
     (case update env post1 w1 of
        (Inl e, w2) \<Rightarrow> (Inl e, post1, w2)
      | (Inr u, w2) \<Rightarrow> (Inr (Success pid results), post1, w2))))"

definition try_block ::
  "'x env \<Rightarrow> string \<Rightarrow> 'x world \<Rightarrow> (exn + outcome) \<times> FlowerPost option \<times> 'x world" where
  "try_block env pid w =
     (case pickup env pid w of
        (Inl e, post_var, w1) \<Rightarrow> (Inl e, post_var, w1)
      | (Inr None, post_var, w1) \<Rightarrow> (Inr (Failure ''Post not found''), post_var, w1)
      | (Inr (Some post), post_var, w1) \<Rightarrow>
     (case analysis env post w1 of
        (Inl e, post1, w2) \<Rightarrow> (Inl e, Some post1, w2)
      | (Inr fd, post1, w2) \<Rightarrow>
     (case platform_loop env pid fd (platforms post1) (post1, [], w2) of
        (Some e, post2, results, w3) \<Rightarrow> (Inl e, Some post2, w3)
      | (None, st) \<Rightarrow>
     (case complete env pid st of
        (r, post3, w4) \<Rightarrow> (r, Some post3, w4)))))"

text \<open>
  The body shared by the two handlers, lines 151-153 and 157-159: reading the unbound
  \<^verbatim>\<open>post\<close> raises \<^verbatim>\<open>UnboundLocalError\<close>; an exception of the write leaves the handler.
\<close>

definition mark_failed ::
  "'x env \<Rightarrow> exn \<Rightarrow> FlowerPost option \<Rightarrow> 'x world \<Rightarrow> (exn + outcome) \<times> 'x world" where
  "mark_failed env e post_var w =
     (case post_var of
        None \<Rightarrow> (Inl (Exn UnboundLocalError unbound_post_message), w)
      | Some post \<Rightarrow>
          (case update_status env FAILED (Some (str e)) post w of
             (post1, w1) \<Rightarrow>
          (case update env post1 w1 of
             (Inl e', w2) \<Rightarrow> (Inl e', w2)
           | (Inr u, w2) \<Rightarrow> (Inr (Failure (str e)), w2))))"

text \<open>
  The task: a new session (\<^verbatim>\<open>db = SessionLocal()\<close>, line 37), then \<^verbatim>\<open>try\<close>,
  \<^verbatim>\<open>except DomainException\<close>, \<^verbatim>\<open>except Exception\<close>, \<^verbatim>\<open>finally: db.close()\<close>.
  \<^term>\<open>Inl e\<close> is an exception that leaves the task. The settings and the services
  built before the \<^verbatim>\<open>try\<close> (lines 36-45) and the calls of the logger are taken not to
  raise.
\<close>

definition SessionLocal :: "'x world \<Rightarrow> 'x world" where
  "SessionLocal w = w\<lparr>pending := [], closed := False\<rparr>"

definition process_flower_content ::
  "'x env \<Rightarrow> string \<Rightarrow> 'x world \<Rightarrow> (exn + outcome) \<times> 'x world" where
  "process_flower_content env pid w =
     (case try_block env pid (SessionLocal w) of
        (Inr out, post_var, w1) \<Rightarrow> (Inr out, close w1)
      | (Inl e, post_var, w1) \<Rightarrow>
          (case (if is_DomainException e then mark_failed env e post_var w1
                 else mark_failed env e post_var w1) of
             (r, w2) \<Rightarrow> (r, close w2)))"

section \<open>Vocabulary of the statements\<close>

text \<open>Kinds of recorded calls.\<close>

fun is_db :: "call \<Rightarrow> bool" where
  "is_db (Db c) = True"
| "is_db c = False"

fun is_write :: "call \<Rightarrow> bool" where
  "is_write (Db Commit) = True"
| "is_write c = False"

fun is_analysis_call :: "call \<Rightarrow> bool" where
  "is_analysis_call (AnalyzeImage path prompt) = True"
| "is_analysis_call c = False"

text \<open>Content generation, video rendering and publishing: the calls of the loop.\<close>

fun is_platform_call :: "call \<Rightarrow> bool" where
  "is_platform_call (Db c) = False"
| "is_platform_call (AnalyzeImage path prompt) = False"
| "is_platform_call c = True"

text \<open>The publish outcomes a row holds (\<^verbatim>\<open>NULL\<close> is the empty list).\<close>

definition stored_results :: "FlowerPostModel \<Rightarrow> PublishResultDict list" where
  "stored_results r = (case m_publish_results r of None \<Rightarrow> [] | Some ds \<Rightarrow> ds)"

text \<open>The fields of a post the loop never assigns.\<close>

definition same_request :: "FlowerPost \<Rightarrow> FlowerPost \<Rightarrow> bool" where
  "same_request post post' \<longleftrightarrow>
     post_key post' = post_key post \<and> image_paths post' = image_paths post \<and>
     platforms post' = platforms post \<and> title post' = title post \<and>
     description post' = description post \<and> schedule_time post' = schedule_time post \<and>
     status post' = status post \<and> error_message post' = error_message post \<and>
     flower_data post' = flower_data post \<and> created_at post' = created_at post"





section \<open>Concrete runs\<close>

text \<open>
  A store with one pending post, two images, blog and photo platform requested, and
  collaborators that all answer. The outside state is the clock, which ticks at
  every reading.
\<close>

definition rose :: json where
  "rose =
     JObj [(''flower_type'',
              JObj [(''korean'', JStr ''jangmi''), (''english'', JStr ''Rose''),
                    (''scientific'', JStr ''Rosa'')]),
           (''colors'', JArr [JStr ''red'']),
           (''seasonal'', JStr ''summer''),
           (''meaning'', JStr ''love'')]"

definition shop_row :: FlowerPostModel where
  "shop_row =
     \<lparr>m_title = None, m_description = None,
      m_image_paths = [''uploads/p1/a.jpg'', ''uploads/p1/b.jpg''],
      m_platforms = [''naver'', ''instagram''],
      m_schedule_time = 3, m_status = ''pending'', m_error_message = None,
      m_flower_data = None, m_blog_content = None, m_instagram_caption = None,
      m_instagram_tags = None, m_video_path = None, m_publish_results = None,
      m_created_at = 3, m_updated_at = 3\<rparr>"

definition shop :: "nat world" where
  "shop = \<lparr>ext = 10, rows = [''p1'' \<mapsto> shop_row], pending = [], closed = False, calls = []\<rparr>"

definition calm :: "nat env" where
  "calm =
     \<lparr>db_io = (\<lambda>c x. (None, x)),
      now = (\<lambda>x. (x, Suc x)),
      py_str = (\<lambda>j. case j of JStr s \<Rightarrow> s | _ \<Rightarrow> ''?''),
      claude_analyze_image = (\<lambda>path prompt x. (Inr rose, x)),
      generate_blog_post = (\<lambda>fd imgs x. (Inr ''<p>rose</p>'', x)),
      generate_instagram_caption = (\<lambda>fd x. (Inr ''a rose'', x)),
      generate_tags = (\<lambda>fd x. (Inr [''#rose''], x)),
      create_shorts_video = (\<lambda>imgs fd out x. (Inr out, x)),
      naver_session = (\<lambda>a b c x. (Inr ''https://blog.naver.com/shop/1'', x)),
      instagram_api = (\<lambda>a b c x. (Inr ''17'', x)),
      youtube_checks = (\<lambda>a b c d x. (Inr (), x))\<rparr>"



definition blog_site_down :: "nat env" where
  "blog_site_down =
     calm\<lparr>naver_session :=
            (\<lambda>a b c x. (Inl (Exn (OtherException ''TimeoutException'') ''no answer''), x))\<rparr>"


definition query_down :: "nat env" where
  "query_down =
     calm\<lparr>db_io :=
            (\<lambda>c x. (if c = Query
                     then Some (Exn (OtherException ''OperationalError'') ''connection lost'')
                     else None, x))\<rparr>"

text \<open>The post of the store as the repository loads it, and once picked up.\<close>

definition shop_post :: FlowerPost where
  "shop_post =
     \<lparr>post_key = ''p1'', image_paths = [''uploads/p1/a.jpg'', ''uploads/p1/b.jpg''],
      platforms = [NAVER, INSTAGRAM], title = None, description = None,
      schedule_time = 3, status = ''pending'', error_message = None,
      flower_data = None, blog_content = None, instagram_caption = None,
      instagram_tags = None, video_path = None, publish_results = [],
      created_at = 3, updated_at = 3\<rparr>"

text \<open>A registry whose blog publisher raises and whose other publishers are missing.\<close>

definition outage :: "nat SocialPublisherService" where
  "outage =
     \<lparr>naver_publisher = Some (\<lambda>a b c x. (Inl (Exn PublishingError ''login failed''), x)),
      instagram_publisher = None,
      youtube_publisher = None\<rparr>"

text \<open>The shop after a failed run: the post is stored as failed, with the message.\<close>

definition relapse :: "nat world" where
  "relapse =
     shop\<lparr>rows := [''p1'' \<mapsto> shop_row\<lparr>m_status := ''failed'',
                                          m_error_message := Some ''overloaded''\<rparr>]\<rparr>"

section \<open>Effects of the primitives\<close>

lemma external_effect:
  assumes "external c f w = (r, w1)"
  shows "rows w1 = rows w \<and> pending w1 = pending w \<and> closed w1 = closed w
       \<and> calls w1 = calls w @ [c]"
  using assms by (auto simp: external_def split: prod.splits)

lemma datetime_now_effect:
  assumes "datetime_now env w = (t, w1)"
  shows "rows w1 = rows w \<and> pending w1 = pending w \<and> closed w1 = closed w
       \<and> calls w1 = calls w"
  using assms by (auto simp: datetime_now_def split: prod.splits)

lemma find_by_id_effect:
  assumes "find_by_id env k w = (r, w1)"
  shows "rows w1 = rows w \<and> pending w1 = pending w \<and> closed w1 = closed w
       \<and> calls w1 = calls w @ [Db Query]
       \<and> (case r of
             Inl e \<Rightarrow> cls e = RepositoryError
           | Inr None \<Rightarrow> rows w k = None
           | Inr (Some post) \<Rightarrow> (\<exists>row. rows w k = Some row \<and> map_to_entity k row = Inr post))"
  using assms
  by (auto simp: find_by_id_def query_first_def external_def
      split: prod.splits sum.splits option.splits)

lemma find_by_id_missing:
  assumes "rows w k = None" and "fst (db_io env Query (ext w)) = None"
  shows "fst (find_by_id env k w) = Inr None"
  using assms
  by (auto simp: find_by_id_def query_first_def external_def
      split: prod.splits sum.splits option.splits)





section \<open>The publisher registry never raises\<close>

text \<open>
  C3. For every platform and every content dict, \<^const>\<open>publish\<close> returns a publish result:
  its type has no exception, because every path of the source returns. Whenever its
  \<^verbatim>\<open>try\<close> block raises, the answer is the failed result tagged with the platform and
  carrying the text of the exception; otherwise it is the result of the publisher. The
  \<^verbatim>\<open>try\<close> block raises when no publisher is registered for the platform, and then the text
  is that of the unsupported-platform error; and it raises what the publisher of the
  platform raises.
\<close>

theorem publish_never_raises:
  "(\<forall>e w1. publish_try svc p content w = (Inl e, w1) \<longrightarrow>
      publish svc p content w =
        (\<lparr>success = False, platform = p, url = None, post_id = None,
          error = Some (str e)\<rparr>, w1))
   \<and> (\<forall>r w1. publish_try svc p content w = (Inr r, w1) \<longrightarrow>
      publish svc p content w = (r, w1))
   \<and> ((case p of NAVER \<Rightarrow> naver_publisher svc = None
               | INSTAGRAM \<Rightarrow> instagram_publisher svc = None
               | YOUTUBE \<Rightarrow> youtube_publisher svc = None) \<longrightarrow>
      publish svc p content w =
        (\<lparr>success = False, platform = p, url = None, post_id = None,
          error = Some (unsupported_platform_prefix @ Platform_value p)\<rparr>, w))
   \<and> (\<forall>f e x. p = NAVER \<and> naver_publisher svc = Some f \<and>
        f (content_get content ''title'' (VStr ''''))
          (content_get content ''blog_content'' (VStr ''''))
          (content_get content ''image_paths'' (VList [])) (ext w) = (Inl e, x) \<longrightarrow>
      fst (publish svc p content w) =
        \<lparr>success = False, platform = p, url = None, post_id = None, error = Some (str e)\<rparr>)
   \<and> (\<forall>f e x. p = INSTAGRAM \<and> instagram_publisher svc = Some f \<and>
        f (content_get content ''instagram_caption'' (VStr ''''))
          (content_get content ''instagram_tags'' (VList []))
          (content_get content ''image_paths'' (VList [])) (ext w) = (Inl e, x) \<longrightarrow>
      fst (publish svc p content w) =
        \<lparr>success = False, platform = p, url = None, post_id = None, error = Some (str e)\<rparr>)
   \<and> (\<forall>f e x. p = YOUTUBE \<and> youtube_publisher svc = Some f \<and>
        f (content_get content ''video_path'' (VStr ''''))
          (content_get content ''title'' (VStr ''''))
          (content_get content ''description'' (VStr ''''))
          (content_get content ''tags'' (VList [])) (ext w) = (Inl e, x) \<longrightarrow>
      fst (publish svc p content w) =
        \<lparr>success = False, platform = p, url = None, post_id = None, error = Some (str e)\<rparr>)"
  by (cases p)
     (auto simp: publish_def publish_try_def failed_result_def external_def str_def Let_def
       split: prod.splits sum.splits option.splits)

theorem publish_never_raises_witness:
  "publish_try outage NAVER [] shop =
     (Inl (Exn PublishingError ''login failed''),
      shop\<lparr>calls := [PublishToNaver (VStr '''') (VStr '''') (VList [])]\<rparr>)
   \<and> fst (publish outage NAVER [] shop) =
       \<lparr>success = False, platform = NAVER, url = None, post_id = None,
        error = Some ''login failed''\<rparr>
   \<and> instagram_publisher outage = None
   \<and> fst (publish outage INSTAGRAM [] shop) =
       \<lparr>success = False, platform = INSTAGRAM, url = None, post_id = None,
        error = Some (unsupported_platform_prefix @ ''instagram'')\<rparr>"
proof -
  have raised: "publish_try outage NAVER [] shop =
     (Inl (Exn PublishingError ''login failed''),
      shop\<lparr>calls := [PublishToNaver (VStr '''') (VStr '''') (VList [])]\<rparr>)"
    by (simp add: publish_try_def outage_def external_def content_get_def shop_def)
  have missing: "instagram_publisher outage = None"
    by (simp add: outage_def)
  from publish_never_raises [of outage NAVER "[]" shop] raised
  have "publish outage NAVER [] shop =
     (\<lparr>success = False, platform = NAVER, url = None, post_id = None,
       error = Some (str (Exn PublishingError ''login failed''))\<rparr>,
      shop\<lparr>calls := [PublishToNaver (VStr '''') (VStr '''') (VList [])]\<rparr>)"
    by blast
  moreover from publish_never_raises [of outage INSTAGRAM "[]" shop] missing
  have "publish outage INSTAGRAM [] shop =
     (\<lparr>success = False, platform = INSTAGRAM, url = None, post_id = None,
       error = Some (unsupported_platform_prefix @ Platform_value INSTAGRAM)\<rparr>, shop)"
    by simp
  ultimately show ?thesis
    using raised missing by (simp add: str_def)
qed

section \<open>Errors of the repository\<close>




section \<open>Runs that never load a post\<close>

lemma SessionLocal_simps [simp]:
  "rows (SessionLocal w) = rows w" "calls (SessionLocal w) = calls w"
  "ext (SessionLocal w) = ext w" "pending (SessionLocal w) = []"
  by (simp_all add: SessionLocal_def)

lemma close_simps [simp]:
  "rows (close w) = rows w" "calls (close w) = calls w" "ext (close w) = ext w"
  by (simp_all add: close_def)

text \<open>
  C5. When the store has no row under the post id, the run writes nothing: the rows
  after the run are the rows before it, and the only call made is the query of the
  lookup (no commit). When that query is answered, the task returns the not-found
  outcome \<^verbatim>\<open>{"success": False, "error": "Post not found"}\<close>.
\<close>

theorem process_unknown_post:
  assumes "rows w pid = None"
  shows "rows (snd (process_flower_content env pid w)) = rows w
       \<and> calls (snd (process_flower_content env pid w)) = calls w @ [Db Query]
       \<and> (fst (db_io env Query (ext w)) = None \<longrightarrow>
            fst (process_flower_content env pid w) = Inr (Failure ''Post not found''))"
proof -
  obtain r w1 where f: "find_by_id env pid (SessionLocal w) = (r, w1)"
    by (cases "find_by_id env pid (SessionLocal w)")
  from find_by_id_effect [OF f] assms
  have frame: "rows w1 = rows w" "calls w1 = calls w @ [Db Query]"
    and shape: "(\<exists>e. r = Inl e) \<or> r = Inr None"
    by (auto split: sum.splits option.splits)
  have answered: "r = Inr None" if "fst (db_io env Query (ext w)) = None"
    using find_by_id_missing [of "SessionLocal w" pid env] assms that f by simp
  from shape show ?thesis
  proof
    assume "\<exists>e. r = Inl e"
    then obtain e where "r = Inl e" ..
    with f frame answered show ?thesis
      by (auto simp: process_flower_content_def try_block_def pickup_def mark_failed_def)
  next
    assume "r = Inr None"
    with f frame show ?thesis
      by (simp add: process_flower_content_def try_block_def pickup_def)
  qed
qed

theorem process_unknown_post_witness:
  "rows shop ''p2'' = None
   \<and> fst (db_io calm Query (ext shop)) = None
   \<and> fst (process_flower_content calm ''p2'' shop) = Inr (Failure ''Post not found'')
   \<and> rows (snd (process_flower_content calm ''p2'' shop)) = rows shop
   \<and> calls (snd (process_flower_content calm ''p2'' shop)) = calls shop @ [Db Query]"
proof -
  have a: "rows shop ''p2'' = None"
    by (simp add: shop_def)
  have b: "fst (db_io calm Query (ext shop)) = None"
    by (simp add: calm_def)
  from process_unknown_post [OF a, of calm] a b show ?thesis
    by simp
qed

text \<open>
  C10. When \<^verbatim>\<open>repository.find_by_id\<close> itself raises, the local variable \<^verbatim>\<open>post\<close> is
  still unbound in the handlers: the handler fails with \<^verbatim>\<open>UnboundLocalError\<close>, which
  leaves the task, and nothing is written: the rows are those of before the run and
  the query of the lookup is the only call made.
\<close>

theorem handler_with_unbound_post:
  assumes "find_by_id env pid (SessionLocal w) = (Inl e, w1)"
  shows "process_flower_content env pid w =
           (Inl (Exn UnboundLocalError unbound_post_message), close w1)
       \<and> rows (close w1) = rows w
       \<and> calls (close w1) = calls w @ [Db Query]"
  using assms find_by_id_effect [OF assms]
  by (simp add: process_flower_content_def try_block_def pickup_def mark_failed_def)

theorem handler_with_unbound_post_witness:
  "fst (find_by_id query_down ''p1'' (SessionLocal shop)) =
     Inl (Exn RepositoryError (find_error_prefix @ ''connection lost''))
   \<and> fst (process_flower_content query_down ''p1'' shop) =
       Inl (Exn UnboundLocalError unbound_post_message)
   \<and> rows (snd (process_flower_content query_down ''p1'' shop)) = rows shop
   \<and> calls (snd (process_flower_content query_down ''p1'' shop)) = calls shop @ [Db Query]"
proof -
  obtain w1 where f: "find_by_id query_down ''p1'' (SessionLocal shop) =
      (Inl (Exn RepositoryError (find_error_prefix @ ''connection lost'')), w1)"
    by (simp add: find_by_id_def query_first_def external_def query_down_def calm_def str_def)
  from handler_with_unbound_post [OF f] f show ?thesis
    by simp
qed

section \<open>Effects of the stages\<close>

lemma db_calls_filtered:
  assumes "list_all is_db cs"
  shows "filter is_analysis_call cs = []" and "filter is_platform_call cs = []"
proof -
  have "\<And>c. is_db c \<Longrightarrow> \<not> is_analysis_call c \<and> \<not> is_platform_call c"
    by (case_tac c) auto
  with assms show "filter is_analysis_call cs = []" and "filter is_platform_call cs = []"
    by (auto simp: list_all_iff filter_empty_conv)
qed

lemma flush_last_modify:
  "flush rs (ops @ [Modify k r]) = Inr rs' \<Longrightarrow> rs' k = Some r"
proof (induction ops arbitrary: rs)
  case Nil
  then show ?case by auto
next
  case (Cons op ops)
  then show ?case by (cases op) (auto split: if_splits)
qed

lemma update_frame:
  assumes "update env post w = (r, w1)"
  shows "pending w1 = [] \<and> closed w1 = closed w
       \<and> filter is_analysis_call (calls w1) = filter is_analysis_call (calls w)
       \<and> filter is_platform_call (calls w1) = filter is_platform_call (calls w)"
  using assms
  by (auto simp: update_def query_first_def commit_def refresh_def external_def
        rollback_and_raise_def rollback_def Let_def
      split: prod.splits sum.splits option.splits)

lemma update_written:
  assumes "update env post w = (Inr p, w1)"
  shows "rows w1 (post_key post) = Some (map_to_model post)"
  using assms
  by (auto simp: update_def query_first_def commit_def refresh_def external_def
        rollback_and_raise_def rollback_def Let_def
      split: prod.splits sum.splits option.splits dest!: flush_last_modify)

lemma update_status_effect:
  assumes "update_status env st err post w = (post', w')"
  shows "(\<exists>t. post' = (if str_truthy err
                       then post\<lparr>status := PostStatus_value st, error_message := err, updated_at := t\<rparr>
                       else post\<lparr>status := PostStatus_value st, updated_at := t\<rparr>))
       \<and> rows w' = rows w \<and> pending w' = pending w \<and> closed w' = closed w
       \<and> calls w' = calls w"
  using assms
  by (auto simp: update_status_def datetime_now_def Let_def split: prod.splits)

lemma add_publish_result_effect:
  assumes "add_publish_result env r post w = (post', w')"
  shows "same_request post post' \<and> publish_results post' = publish_results post @ [r]
       \<and> rows w' = rows w \<and> pending w' = pending w \<and> closed w' = closed w
       \<and> calls w' = calls w"
  using assms
  by (auto simp: add_publish_result_def datetime_now_def same_request_def Let_def
      split: prod.splits)

lemma publish_effect:
  assumes "publish (get_social_publishers env) p content w = (r, w1)"
  shows "platform r = p \<and> rows w1 = rows w \<and> pending w1 = pending w
       \<and> closed w1 = closed w
       \<and> filter is_analysis_call (calls w1) = filter is_analysis_call (calls w)"
  using assms
  by (cases p)
     (auto simp: publish_def publish_try_def get_social_publishers_def external_def Let_def
        publish_to_naver_def publish_to_instagram_def publish_to_youtube_def failed_result_def
      split: prod.splits sum.splits)

lemma same_request_refl [simp]: "same_request post post"
  by (simp add: same_request_def)

lemma same_request_trans:
  "same_request a b \<Longrightarrow> same_request b c \<Longrightarrow> same_request a c"
  by (simp add: same_request_def)

lemma publish_tag:
  assumes "publish (get_social_publishers env) p content w = (r, w1)"
  shows "platform r = p"
  using publish_effect [OF assms] by simp

lemma add_publish_result_post:
  assumes "add_publish_result env r post w = (post', w')"
  shows "same_request post post' \<and> publish_results post' = publish_results post @ [r]"
  using add_publish_result_effect [OF assms] by simp

lemma naver_branch_post:
  assumes "naver_branch env fd (post, results, w) = (r, post', results', w')"
  shows "same_request post post'
       \<and> (r = None \<longrightarrow>
            (\<exists>pr. publish_results post' = publish_results post @ [pr] \<and> platform pr = NAVER))"
  using assms
  by (auto simp: naver_branch_def Let_def same_request_def
      split: prod.splits sum.splits
      dest!: publish_tag add_publish_result_post)

lemma instagram_branch_post:
  assumes "instagram_branch env fd (post, results, w) = (r, post', results', w')"
  shows "same_request post post'
       \<and> (r = None \<longrightarrow>
            (\<exists>pr. publish_results post' = publish_results post @ [pr] \<and> platform pr = INSTAGRAM))"
  using assms
  by (auto simp: instagram_branch_def Let_def same_request_def
      split: prod.splits sum.splits
      dest!: publish_tag add_publish_result_post)

lemma youtube_branch_post:
  assumes "youtube_branch env pid fd (post, results, w) = (r, post', results', w')"
  shows "same_request post post'
       \<and> (r = None \<longrightarrow>
            (\<exists>pr. publish_results post' = publish_results post @ [pr] \<and> platform pr = YOUTUBE))"
  using assms
  by (auto simp: youtube_branch_def Let_def same_request_def
      split: prod.splits sum.splits
      dest!: publish_tag add_publish_result_post)

lemma naver_branch_world:
  assumes "naver_branch env fd (post, results, w) = (r, post', results', w')"
    and "pending w = []"
  shows "pending w' = []
       \<and> filter is_analysis_call (calls w') = filter is_analysis_call (calls w)"
  using assms
  by (auto simp: naver_branch_def Let_def
      split: prod.splits sum.splits
      dest!: publish_effect add_publish_result_effect update_frame external_effect)

lemma instagram_branch_world:
  assumes "instagram_branch env fd (post, results, w) = (r, post', results', w')"
    and "pending w = []"
  shows "pending w' = []
       \<and> filter is_analysis_call (calls w') = filter is_analysis_call (calls w)"
  using assms
  by (auto simp: instagram_branch_def Let_def
      split: prod.splits sum.splits
      dest!: publish_effect add_publish_result_effect update_frame external_effect)

lemma youtube_branch_world:
  assumes "youtube_branch env pid fd (post, results, w) = (r, post', results', w')"
    and "pending w = []"
  shows "pending w' = []
       \<and> filter is_analysis_call (calls w') = filter is_analysis_call (calls w)"
  using assms
  by (auto simp: youtube_branch_def Let_def
      split: prod.splits sum.splits
      dest!: publish_effect add_publish_result_effect update_frame external_effect)

lemma platform_step_post:
  assumes "platform_step env pid fd p (post, results, w) = (r, post', results', w')"
  shows "same_request post post'
       \<and> (r = None \<longrightarrow>
            (\<exists>pr. publish_results post' = publish_results post @ [pr] \<and> platform pr = p))"
  using assms naver_branch_post instagram_branch_post youtube_branch_post
  by (cases p) (simp_all add: platform_step_def)

lemma platform_step_world:
  assumes "platform_step env pid fd p (post, results, w) = (r, post', results', w')"
    and "pending w = []"
  shows "pending w' = []
       \<and> filter is_analysis_call (calls w') = filter is_analysis_call (calls w)"
  using assms naver_branch_world instagram_branch_world youtube_branch_world
  by (cases p) (simp_all add: platform_step_def)

lemma platform_loop_post:
  assumes "platform_loop env pid fd ps (post, results, w) = (r, post', results', w')"
  shows "same_request post post'
       \<and> (r = None \<longrightarrow>
            (\<exists>new. publish_results post' = publish_results post @ new
                   \<and> map platform new = ps))"
  using assms
proof (induction ps arbitrary: post results w)
  case Nil
  then show ?case by simp
next
  case (Cons p ps)
  obtain r1 post1 results1 w1
    where step: "platform_step env pid fd p (post, results, w) = (r1, post1, results1, w1)"
    by (cases "platform_step env pid fd p (post, results, w)") auto
  note s = platform_step_post [OF step]
  show ?case
  proof (cases r1)
    case (Some e)
    with Cons.prems step s show ?thesis by auto
  next
    case None
    with Cons.prems step
    have rest: "platform_loop env pid fd ps (post1, results1, w1) = (r, post', results', w')"
      by simp
    from s None obtain pr
      where pr: "publish_results post1 = publish_results post @ [pr]" "platform pr = p"
      by blast
    from Cons.IH [OF rest] s show ?thesis
      using pr by (auto intro: same_request_trans)
  qed
qed

lemma platform_loop_world:
  assumes "platform_loop env pid fd ps (post, results, w) = (r, post', results', w')"
    and "pending w = []"
  shows "pending w' = []
       \<and> filter is_analysis_call (calls w') = filter is_analysis_call (calls w)"
  using assms
proof (induction ps arbitrary: post results w)
  case Nil
  then show ?case by simp
next
  case (Cons p ps)
  obtain r1 post1 results1 w1
    where step: "platform_step env pid fd p (post, results, w) = (r1, post1, results1, w1)"
    by (cases "platform_step env pid fd p (post, results, w)") auto
  note s = platform_step_world [OF step Cons.prems(2)]
  show ?case
  proof (cases r1)
    case (Some e)
    with Cons.prems step s show ?thesis by auto
  next
    case None
    with Cons.prems step
    have rest: "platform_loop env pid fd ps (post1, results1, w1) = (r, post', results', w')"
      by simp
    from Cons.IH [OF rest] s show ?thesis by simp
  qed
qed

lemma update_full:
  assumes "update env post w = (r, w1)"
  shows "pending w1 = [] \<and> closed w1 = closed w
       \<and> filter is_analysis_call (calls w1) = filter is_analysis_call (calls w)
       \<and> filter is_platform_call (calls w1) = filter is_platform_call (calls w)
       \<and> (\<forall>p. r = Inr p \<longrightarrow> rows w1 (post_key post) = Some (map_to_model post))"
  using update_frame [OF assms] update_written [of env post w _ w1] assms
  by auto

lemma pickup_effect:
  assumes "pickup env pid w = (r, post_var, w1)"
  shows "filter is_analysis_call (calls w1) = filter is_analysis_call (calls w)
       \<and> filter is_platform_call (calls w1) = filter is_platform_call (calls w)
       \<and> (case r of
             Inl e \<Rightarrow> True
           | Inr None \<Rightarrow> post_var = None
           | Inr (Some post) \<Rightarrow>
               post_var = Some post \<and> pending w1 = []
               \<and> post_key post = pid
               \<and> rows w1 pid = Some (map_to_model post)
               \<and> (\<exists>row post0. rows w pid = Some row \<and> map_to_entity pid row = Inr post0
                     \<and> post = post0\<lparr>status := ''processing'',
                                     updated_at := updated_at post\<rparr>))"
proof -
  have key: "map_to_entity k row = Inr p \<Longrightarrow> post_key p = k" for k row p
    by (auto simp: map_to_entity_def split: sum.splits)
  show ?thesis
    using assms
    by (auto simp: pickup_def
        split: prod.splits sum.splits option.splits
        dest!: find_by_id_effect update_status_effect update_full
        dest: key)
qed

lemma dict_get_object:
  assumes "dict_get j k d = Inr v"
  shows "\<exists>kvs. j = JObj kvs"
  using assms by (cases j) auto

lemma analysis_error_text: "str (analysis_error e) \<noteq> []"
  by (simp add: analysis_error_def str_def analysis_error_prefix_def)

lemma analyze_flower_image_effect:
  assumes "analyze_flower_image env img w = (r, w1)"
  shows "rows w1 = rows w \<and> pending w1 = pending w \<and> closed w1 = closed w
       \<and> calls w1 = calls w @ [AnalyzeImage img analysis_prompt]
       \<and> (case r of
             Inr fd \<Rightarrow> (\<exists>kvs. fd = JObj kvs)
           | Inl e \<Rightarrow> str e \<noteq> [])"
  using assms
  by (auto simp: analyze_flower_image_def external_def analysis_error_text
      split: prod.splits sum.splits dest: dict_get_object)

lemma analysis_effect:
  assumes "analysis env post w = (r, post', w')"
  shows "filter is_platform_call (calls w') = filter is_platform_call (calls w)
       \<and> (case image_paths post of
             [] \<Rightarrow> calls w' = calls w
           | img # rest \<Rightarrow>
               filter is_analysis_call (calls w') =
                 filter is_analysis_call (calls w) @ [AnalyzeImage img analysis_prompt])
       \<and> (case r of
             Inr fd \<Rightarrow>
               post' = post\<lparr>flower_data := Some (FlowerDict fd)\<rparr>
               \<and> (\<exists>kvs. fd = JObj kvs) \<and> pending w' = []
               \<and> rows w' (post_key post) = Some (map_to_model post')
           | Inl e \<Rightarrow>
               post' = post \<or> (\<exists>fd. post' = post\<lparr>flower_data := Some (FlowerDict fd)\<rparr>))"
  using assms
  by (auto simp: analysis_def Let_def
      split: list.splits prod.splits sum.splits
      dest!: analyze_flower_image_effect update_full)

lemma complete_effect:
  assumes "complete env pid (post, results, w) = (r, post', w')"
  shows "filter is_analysis_call (calls w') = filter is_analysis_call (calls w)
       \<and> post' = post\<lparr>status := ''completed'', updated_at := updated_at post'\<rparr>
       \<and> (\<forall>out. r = Inr out \<longrightarrow>
             out = Success pid results
             \<and> rows w' (post_key post) = Some (map_to_model post'))"
  using assms
  by (auto simp: complete_def
      split: prod.splits sum.splits
      dest!: update_status_effect update_full)

lemma mark_failed_effect:
  assumes "mark_failed env e post_var w = (r, w')"
  shows "filter is_analysis_call (calls w') = filter is_analysis_call (calls w)
       \<and> filter is_platform_call (calls w') = filter is_platform_call (calls w)
       \<and> (\<forall>out. r = Inr out \<longrightarrow> out = Failure (str e))"
  using assms
  by (auto simp: mark_failed_def
      split: prod.splits sum.splits option.splits
      dest!: update_status_effect update_full)

text \<open>What a run that returns success has done to the post it loaded.\<close>

lemma completed_run:
  assumes "process_flower_content env pid w = (Inr (Success pid' results), w')"
  shows "\<exists>row post0 post'.
           rows w pid = Some row \<and> map_to_entity pid row = Inr post0
         \<and> rows w' pid = Some (map_to_model post')
         \<and> status post' = ''completed''
         \<and> post_key post' = pid
         \<and> platforms post' = platforms post0
         \<and> error_message post' = error_message post0
         \<and> created_at post' = created_at post0
         \<and> (\<exists>new. publish_results post' = publish_results post0 @ new
                   \<and> map platform new = platforms post0)"
proof -
  from assms obtain post_var w1
    where tb: "try_block env pid (SessionLocal w) = (Inr (Success pid' results), post_var, w1)"
      and w': "w' = close w1"
    by (auto simp: process_flower_content_def
        split: prod.splits sum.splits if_splits dest!: mark_failed_effect)
  from tb obtain post1 pv1 w2 fd post2 w3 st
    where pk: "pickup env pid (SessionLocal w) = (Inr (Some post1), pv1, w2)"
      and an: "analysis env post1 w2 = (Inr fd, post2, w3)"
      and lp: "platform_loop env pid fd (platforms post2) (post2, [], w3) = (None, st)"
      and cp: "fst (complete env pid st) = Inr (Success pid' results)"
      and cw: "snd (snd (complete env pid st)) = w1"
    by (auto simp: try_block_def split: prod.splits sum.splits option.splits)
  obtain post3 results3 w4 where st: "st = (post3, results3, w4)"
    by (cases st) auto
  obtain post4 where cp': "complete env pid (post3, results3, w4) =
      (Inr (Success pid' results), post4, w1)"
    using cp cw st by (cases "complete env pid (post3, results3, w4)") auto
  from pickup_effect [OF pk] obtain row post0
    where row: "rows w pid = Some row" "map_to_entity pid row = Inr post0"
      and p1: "post1 = post0\<lparr>status := ''processing'', updated_at := updated_at post1\<rparr>"
      and k1: "post_key post1 = pid"
    by auto
  from analysis_effect [OF an]
  have p2: "post2 = post1\<lparr>flower_data := Some (FlowerDict fd)\<rparr>"
    by simp
  from platform_loop_post [OF lp [unfolded st]] obtain new
    where same: "same_request post2 post3"
      and new: "publish_results post3 = publish_results post2 @ new"
               "map platform new = platforms post2"
    by auto
  from complete_effect [OF cp']
  have p4: "post4 = post3\<lparr>status := ''completed'', updated_at := updated_at post4\<rparr>"
    and written: "rows w1 (post_key post3) = Some (map_to_model post4)"
    by auto
  have f4: "status post4 = ''completed''" "post_key post4 = post_key post3"
    "platforms post4 = platforms post3" "error_message post4 = error_message post3"
    "created_at post4 = created_at post3" "publish_results post4 = publish_results post3"
    by (subst p4, simp)+
  have f1: "platforms post1 = platforms post0" "error_message post1 = error_message post0"
    "created_at post1 = created_at post0" "publish_results post1 = publish_results post0"
    by (subst p1, simp)+
  have f3: "post_key post3 = pid" "platforms post3 = platforms post0"
    "error_message post3 = error_message post0" "created_at post3 = created_at post0"
    using same p2 k1 f1 by (simp_all add: same_request_def)
  have "rows w' pid = Some (map_to_model post4)"
    using written f3 w' by simp
  moreover have "publish_results post4 = publish_results post0 @ new"
    "map platform new = platforms post0"
    using new p2 f1 f4 by simp_all
  ultimately show ?thesis
    using row f3 f4 by auto
qed

section \<open>The row and the entity\<close>

lemma Platform_of_value: "Platform_of s = Inr p \<Longrightarrow> Platform_value p = s"
  by (auto simp: Platform_of_def split: if_splits)

lemma map_raising_inverse:
  assumes "map_raising f xs = Inr ys" and "\<And>x y. f x = Inr y \<Longrightarrow> g y = x"
  shows "map g ys = xs"
  using assms(1)
proof (induction xs arbitrary: ys)
  case Nil
  then show ?case by simp
next
  case (Cons x xs)
  then show ?case by (auto split: sum.splits dest: assms(2))
qed

lemma result_of_dict_inverse: "result_of_dict d = Inr r \<Longrightarrow> dict_of_result r = d"
  by (auto simp: result_of_dict_def dict_of_result_def split: sum.splits dest: Platform_of_value)

lemma map_to_entity_fields:
  assumes "map_to_entity k row = Inr post"
  shows "map Platform_value (platforms post) = m_platforms row"
    and "map dict_of_result (publish_results post) = stored_results row"
    and "error_message post = m_error_message row"
    and "created_at post = m_created_at row"
    and "image_paths post = m_image_paths row"
    and "post_key post = k"
  using assms
  by (auto simp: map_to_entity_def stored_results_def
      split: sum.splits option.splits if_splits
      dest: map_raising_inverse [where g = Platform_value, OF _ Platform_of_value]
            map_raising_inverse [where g = dict_of_result, OF _ result_of_dict_inverse])


lemma map_to_model_fields:
  "m_status (map_to_model post) = status post"
  "m_error_message (map_to_model post) = error_message post"
  "m_platforms (map_to_model post) = map Platform_value (platforms post)"
  "stored_results (map_to_model post) = map dict_of_result (publish_results post)"
  "m_created_at (map_to_model post) = created_at post"
  "m_blog_content (map_to_model post) = blog_content post"
  "m_instagram_caption (map_to_model post) = instagram_caption post"
  "m_instagram_tags (map_to_model post) = instagram_tags post"
  "m_video_path (map_to_model post) = video_path post"
  by (simp_all add: map_to_model_def stored_results_def)

lemma stored_after_run:
  assumes ent: "map_to_entity pid row = Inr post0"
    and pl: "platforms post' = platforms post0"
    and new: "publish_results post' = publish_results post0 @ new"
             "map platform new = platforms post0"
  shows "m_platforms (map_to_model post') = m_platforms row"
    and "stored_results (map_to_model post') = stored_results row @ map dict_of_result new"
    and "map d_platform (map dict_of_result new) = m_platforms row"
proof -
  show "m_platforms (map_to_model post') = m_platforms row"
    using pl map_to_entity_fields(1) [OF ent] by (simp add: map_to_model_fields)
  show "stored_results (map_to_model post') = stored_results row @ map dict_of_result new"
    using new(1) map_to_entity_fields(2) [OF ent] by (simp add: map_to_model_fields)
  have "map d_platform (map dict_of_result new) = map Platform_value (map platform new)"
    by (simp add: dict_of_result_def comp_def)
  also have "\<dots> = map Platform_value (platforms post0)"
    using new(2) by simp
  also have "\<dots> = m_platforms row"
    by (rule map_to_entity_fields(1) [OF ent])
  finally show "map d_platform (map dict_of_result new) = m_platforms row" .
qed

section \<open>Completed runs\<close>

text \<open>
  C2. A run that returns success has written the post with status completed, and the
  publish outcomes of the stored row are those it held before the run followed by
  exactly one new entry per requested platform: the platform tags of the new entries,
  read in order, are the list of requested platforms of the row, whatever the success
  flag of each entry.
\<close>

theorem completed_run_outcomes:
  assumes "process_flower_content env pid w = (Inr (Success pid' results), w')"
  shows "\<exists>row row' new.
           rows w pid = Some row \<and> rows w' pid = Some row'
         \<and> m_status row' = ''completed''
         \<and> m_platforms row' = m_platforms row
         \<and> stored_results row' = stored_results row @ new
         \<and> length new = length (m_platforms row)
         \<and> map d_platform new = m_platforms row"
proof -
  from completed_run [OF assms] obtain row post0 post' new
    where row: "rows w pid = Some row" and ent: "map_to_entity pid row = Inr post0"
      and row': "rows w' pid = Some (map_to_model post')"
      and st: "status post' = ''completed''"
      and pl: "platforms post' = platforms post0"
      and new: "publish_results post' = publish_results post0 @ new"
               "map platform new = platforms post0"
    by blast
  let ?new = "map dict_of_result new"
  note stored = stored_after_run [OF ent pl new]
  have "length (map d_platform ?new) = length (m_platforms row)"
    by (simp only: stored(3))
  then have count: "length ?new = length (m_platforms row)"
    by simp
  have finished: "m_status (map_to_model post') = ''completed''"
    using st by (simp add: map_to_model_fields)
  from row row' finished stored count show ?thesis
    by blast
qed

theorem completed_run_outcomes_witness:
  "fst (process_flower_content blog_site_down ''p1'' shop) =
     Inr (Success ''p1''
       [(''naver'', \<lparr>success = False, platform = NAVER, url = None, post_id = None,
                     error = Some ''no answer''\<rparr>),
        (''instagram'', \<lparr>success = True, platform = INSTAGRAM,
                         url = Some ''https://www.instagram.com/p/17'',
                         post_id = Some ''17'', error = None\<rparr>)])
   \<and> (\<exists>row row' new.
         rows shop ''p1'' = Some row
       \<and> rows (snd (process_flower_content blog_site_down ''p1'' shop)) ''p1'' = Some row'
       \<and> m_status row' = ''completed''
       \<and> m_platforms row' = m_platforms row
       \<and> stored_results row' = stored_results row @ new
       \<and> length new = length (m_platforms row)
       \<and> map d_platform new = m_platforms row)"
proof -
  have ran: "fst (process_flower_content blog_site_down ''p1'' shop) =
     Inr (Success ''p1''
       [(''naver'', \<lparr>success = False, platform = NAVER, url = None, post_id = None,
                     error = Some ''no answer''\<rparr>),
        (''instagram'', \<lparr>success = True, platform = INSTAGRAM,
                         url = Some ''https://www.instagram.com/p/17'',
                         post_id = Some ''17'', error = None\<rparr>)])"
    by code_simp
  then have "process_flower_content blog_site_down ''p1'' shop =
     (Inr (Success ''p1''
       [(''naver'', \<lparr>success = False, platform = NAVER, url = None, post_id = None,
                     error = Some ''no answer''\<rparr>),
        (''instagram'', \<lparr>success = True, platform = INSTAGRAM,
                         url = Some ''https://www.instagram.com/p/17'',
                         post_id = Some ''17'', error = None\<rparr>)]),
      snd (process_flower_content blog_site_down ''p1'' shop))"
    by (metis prod.collapse)
  from completed_run_outcomes [OF this] ran show ?thesis
    by blast
qed

section \<open>The error message\<close>

text \<open>
  C8, as stated, fails: \<^const>\<open>update_status\<close> never clears the error message. A post that
  failed before, with its message stored, and is run again to completion is written
  with status completed and the message of the earlier failure.
\<close>

theorem completed_with_old_error:
  "map_option m_status (rows relapse ''p1'') = Some ''failed''
   \<and> map_option m_error_message (rows relapse ''p1'') = Some (Some ''overloaded'')
   \<and> map_option m_status
        (rows (snd (process_flower_content calm ''p1'' relapse)) ''p1'') = Some ''completed''
   \<and> map_option m_error_message
        (rows (snd (process_flower_content calm ''p1'' relapse)) ''p1'')
      = Some (Some ''overloaded'')"
  by code_simp

text \<open>
  C8, amended. No operation sets the error message while moving to a status other than
  failed: \<^const>\<open>update_status\<close> called without a message leaves the message of the post
  as it is, and a run that returns success writes the post with status completed and
  the error message the stored row had before the run. So a post without an error
  message that reaches completed carries none, and a post that failed before and is run
  again to completion keeps the message of its failure.
\<close>

theorem error_message_kept_by_completed_run:
  "(\<forall>st post v. error_message (fst (update_status env st None post v)) = error_message post)
   \<and> (\<forall>pid' results w'.
         process_flower_content env pid w = (Inr (Success pid' results), w') \<longrightarrow>
         (\<exists>row row'. rows w pid = Some row \<and> rows w' pid = Some row'
            \<and> m_status row' = ''completed''
            \<and> m_error_message row' = m_error_message row))"
proof (intro conjI allI impI)
  fix st post v
  show "error_message (fst (update_status env st None post v)) = error_message post"
    by (simp add: update_status_def Let_def split: prod.splits)
next
  fix pid' results w'
  assume "process_flower_content env pid w = (Inr (Success pid' results), w')"
  from completed_run [OF this] obtain row post0 post'
    where "rows w pid = Some row" and ent: "map_to_entity pid row = Inr post0"
      and "rows w' pid = Some (map_to_model post')"
      and "status post' = ''completed''"
      and "error_message post' = error_message post0"
    by blast
  then show "\<exists>row row'. rows w pid = Some row \<and> rows w' pid = Some row'
            \<and> m_status row' = ''completed''
            \<and> m_error_message row' = m_error_message row"
    using map_to_entity_fields(3) [OF ent] by (simp add: map_to_model_fields)
qed

theorem error_message_kept_by_completed_run_witness:
  "fst (process_flower_content calm ''p1'' shop) =
     Inr (Success ''p1''
       [(''naver'', \<lparr>success = True, platform = NAVER,
                     url = Some ''https://blog.naver.com/shop/1'', post_id = None,
                     error = None\<rparr>),
        (''instagram'', \<lparr>success = True, platform = INSTAGRAM,
                         url = Some ''https://www.instagram.com/p/17'',
                         post_id = Some ''17'', error = None\<rparr>)])
   \<and> (\<exists>row row'. rows shop ''p1'' = Some row
         \<and> rows (snd (process_flower_content calm ''p1'' shop)) ''p1'' = Some row'
         \<and> m_status row' = ''completed''
         \<and> m_error_message row' = m_error_message row)"
proof -
  have ran: "fst (process_flower_content calm ''p1'' shop) =
     Inr (Success ''p1''
       [(''naver'', \<lparr>success = True, platform = NAVER,
                     url = Some ''https://blog.naver.com/shop/1'', post_id = None,
                     error = None\<rparr>),
        (''instagram'', \<lparr>success = True, platform = INSTAGRAM,
                         url = Some ''https://www.instagram.com/p/17'',
                         post_id = Some ''17'', error = None\<rparr>)])"
    by code_simp
  then have "process_flower_content calm ''p1'' shop =
     (Inr (Success ''p1''
       [(''naver'', \<lparr>success = True, platform = NAVER,
                     url = Some ''https://blog.naver.com/shop/1'', post_id = None,
                     error = None\<rparr>),
        (''instagram'', \<lparr>success = True, platform = INSTAGRAM,
                         url = Some ''https://www.instagram.com/p/17'',
                         post_id = Some ''17'', error = None\<rparr>)]),
      snd (process_flower_content calm ''p1'' shop))"
    by (metis prod.collapse)
  with error_message_kept_by_completed_run [of calm "''p1''" shop] ran show ?thesis
    by blast
qed

section \<open>The timestamps\<close>

text \<open>
  C7 does not hold of the code. The post of the shop, picked up at tick 10, is analysed
  at tick 11: the analysis stage stores the answer on the post and hands the post to
  \<^const>\<open>update\<close> (the calls end with the query, the commit and the refresh of that
  write), and the \<^verbatim>\<open>updated_at\<close> of the post is still 10, the tick of the status change
  before. Line 62 assigns the field directly; only \<^const>\<open>update_status\<close> and
  \<^const>\<open>add_publish_result\<close> read the clock.
\<close>

theorem analysis_write_keeps_updated_at:
  "fst (analysis calm (shop_post\<lparr>status := ''processing'', updated_at := 10\<rparr>)
          (shop\<lparr>ext := 11\<rparr>)) = Inr rose
   \<and> flower_data (shop_post\<lparr>status := ''processing'', updated_at := 10\<rparr>) = None
   \<and> flower_data
        (fst (snd (analysis calm (shop_post\<lparr>status := ''processing'', updated_at := 10\<rparr>)
                     (shop\<lparr>ext := 11\<rparr>)))) = Some (FlowerDict rose)
   \<and> updated_at
        (fst (snd (analysis calm (shop_post\<lparr>status := ''processing'', updated_at := 10\<rparr>)
                     (shop\<lparr>ext := 11\<rparr>)))) = 10
   \<and> fst (now calm 11) = 11
   \<and> calls (snd (snd (analysis calm (shop_post\<lparr>status := ''processing'', updated_at := 10\<rparr>)
                          (shop\<lparr>ext := 11\<rparr>))))
      = [AnalyzeImage ''uploads/p1/a.jpg'' analysis_prompt, Db Query, Db Commit, Db Refresh]"
  by code_simp

section \<open>The analysis subject\<close>

lemma process_calls_after_try:
  assumes "try_block env pid (SessionLocal w) = (r, post_var, w1)"
  shows "filter is_analysis_call (calls (snd (process_flower_content env pid w)))
           = filter is_analysis_call (calls w1)"
    and "filter is_platform_call (calls (snd (process_flower_content env pid w)))
           = filter is_platform_call (calls w1)"
proof -
  have "filter is_analysis_call (calls (snd (process_flower_content env pid w)))
           = filter is_analysis_call (calls w1)
      \<and> filter is_platform_call (calls (snd (process_flower_content env pid w)))
           = filter is_platform_call (calls w1)"
  proof (cases r)
    case (Inr out)
    with assms show ?thesis
      by (simp add: process_flower_content_def)
  next
    case (Inl e)
    obtain r2 w2 where m: "mark_failed env e post_var w1 = (r2, w2)"
      by (cases "mark_failed env e post_var w1")
    from mark_failed_effect [OF m] m Inl assms show ?thesis
      by (simp add: process_flower_content_def)
  qed
  then show "filter is_analysis_call (calls (snd (process_flower_content env pid w)))
           = filter is_analysis_call (calls w1)"
    and "filter is_platform_call (calls (snd (process_flower_content env pid w)))
           = filter is_platform_call (calls w1)"
    by simp_all
qed

lemma try_block_analysis_calls:
  assumes tb: "try_block env pid v = (r, post_var, w1)"
    and pk: "pickup env pid v = (rp, pv, v1)"
  shows "case rp of
           Inr (Some post) \<Rightarrow>
             (case image_paths post of
                [] \<Rightarrow> filter is_analysis_call (calls w1) = filter is_analysis_call (calls v)
              | img # rest \<Rightarrow>
                  filter is_analysis_call (calls w1)
                    = filter is_analysis_call (calls v) @ [AnalyzeImage img analysis_prompt])
         | _ \<Rightarrow> filter is_analysis_call (calls w1) = filter is_analysis_call (calls v)"
proof -
  note pe = pickup_effect [OF pk]
  show ?thesis
  proof (cases rp)
    case (Inl e)
    with tb pk pe show ?thesis
      by (simp add: try_block_def)
  next
    case (Inr found)
    show ?thesis
    proof (cases found)
      case None
      with Inr tb pk pe show ?thesis
        by (simp add: try_block_def)
    next
      case (Some post)
      from pe Inr Some have pend: "pending v1 = []"
        by simp
      obtain ra post2 w2 where an: "analysis env post v1 = (ra, post2, w2)"
        by (cases "analysis env post v1") auto
      note ae = analysis_effect [OF an]
      have first: "case image_paths post of
           [] \<Rightarrow> filter is_analysis_call (calls w2) = filter is_analysis_call (calls v)
         | img # rest \<Rightarrow>
             filter is_analysis_call (calls w2)
               = filter is_analysis_call (calls v) @ [AnalyzeImage img analysis_prompt]"
        using ae pe by (auto split: list.splits)
      have "filter is_analysis_call (calls w1) = filter is_analysis_call (calls w2)"
      proof (cases ra)
        case (Inl e)
        with tb pk Inr Some an show ?thesis
          by (simp add: try_block_def)
      next
        case fd: (Inr fd)
        with ae have pend2: "pending w2 = []"
          by simp
        obtain rl post3 results3 w3
          where lp: "platform_loop env pid fd (platforms post2) (post2, [], w2)
                       = (rl, post3, results3, w3)"
          by (cases "platform_loop env pid fd (platforms post2) (post2, [], w2)") auto
        note le = platform_loop_world [OF lp pend2]
        show ?thesis
        proof (cases rl)
          case (Some e)
          with tb pk Inr \<open>found = Some post\<close> an fd lp le show ?thesis
            by (simp add: try_block_def)
        next
          case None
          obtain rc post4 w4 where cp: "complete env pid (post3, results3, w3) = (rc, post4, w4)"
            by (cases "complete env pid (post3, results3, w3)") auto
          from complete_effect [OF cp] tb pk Inr \<open>found = Some post\<close> an fd lp le None cp
          show ?thesis
            by (simp add: try_block_def)
        qed
      qed
      with first Inr Some show ?thesis
        by (auto split: list.splits)
    qed
  qed
qed

text \<open>
  C6. For a stored post with a non-empty image sequence, the only call a run makes to
  the analysis gateway is the one on the first image of the sequence (with the prompt
  of the gateway): the run makes no analysis call at all when it fails before the
  analysis step, and exactly that call once the post is picked up.
\<close>

theorem first_image_is_analysed:
  assumes "rows w pid = Some row" and "m_image_paths row = img # rest"
  shows "(filter is_analysis_call (calls (snd (process_flower_content env pid w)))
            = filter is_analysis_call (calls w)
          \<or> filter is_analysis_call (calls (snd (process_flower_content env pid w)))
            = filter is_analysis_call (calls w) @ [AnalyzeImage img analysis_prompt])
       \<and> (\<forall>post post_var w1.
             pickup env pid (SessionLocal w) = (Inr (Some post), post_var, w1) \<longrightarrow>
             filter is_analysis_call (calls (snd (process_flower_content env pid w)))
               = filter is_analysis_call (calls w) @ [AnalyzeImage img analysis_prompt])"
proof -
  obtain r post_var w1 where tb: "try_block env pid (SessionLocal w) = (r, post_var, w1)"
    by (cases "try_block env pid (SessionLocal w)") auto
  obtain rp pv v1 where pk: "pickup env pid (SessionLocal w) = (rp, pv, v1)"
    by (cases "pickup env pid (SessionLocal w)") auto
  note run = process_calls_after_try(1) [OF tb]
  note tr = try_block_analysis_calls [OF tb pk]
  have images: "image_paths post = img # rest" if "rp = Inr (Some post)" for post
  proof -
    from pickup_effect [OF pk] that obtain row' post0
      where "rows w pid = Some row'" and ent: "map_to_entity pid row' = Inr post0"
        and post: "post = post0\<lparr>status := ''processing'', updated_at := updated_at post\<rparr>"
      by auto
    with assms have "image_paths post0 = img # rest"
      using map_to_entity_fields(5) [OF ent] by simp
    then show ?thesis
      by (subst post) simp
  qed
  show ?thesis
  proof (cases rp)
    case (Inl e)
    with tr run pk show ?thesis by simp
  next
    case (Inr found)
    show ?thesis
    proof (cases found)
      case None
      with Inr tr run pk show ?thesis by simp
    next
      case (Some post)
      with Inr images have "image_paths post = img # rest" by simp
      with Some Inr tr run pk show ?thesis by simp
    qed
  qed
qed

theorem first_image_is_analysed_witness:
  "rows shop ''p1'' = Some shop_row
   \<and> m_image_paths shop_row = ''uploads/p1/a.jpg'' # [''uploads/p1/b.jpg'']
   \<and> (\<exists>post post_var w1.
         pickup calm ''p1'' (SessionLocal shop) = (Inr (Some post), post_var, w1))
   \<and> filter is_analysis_call (calls (snd (process_flower_content calm ''p1'' shop)))
      = filter is_analysis_call (calls shop)
          @ [AnalyzeImage ''uploads/p1/a.jpg'' analysis_prompt]"
proof -
  have a: "rows shop ''p1'' = Some shop_row"
    by (simp add: shop_def)
  have b: "m_image_paths shop_row = ''uploads/p1/a.jpg'' # [''uploads/p1/b.jpg'']"
    by (simp add: shop_row_def)
  have "case fst (pickup calm ''p1'' (SessionLocal shop)) of
          Inr (Some post) \<Rightarrow> True | _ \<Rightarrow> False"
    by code_simp
  then have "\<exists>post. fst (pickup calm ''p1'' (SessionLocal shop)) = Inr (Some post)"
    by (auto split: sum.splits option.splits)
  then have c: "\<exists>post post_var w1.
      pickup calm ''p1'' (SessionLocal shop) = (Inr (Some post), post_var, w1)"
    by (metis prod.collapse)
  with first_image_is_analysed [OF a b, of calm] a b show ?thesis
    by blast
qed

section \<open>Writes that succeed\<close>














lemma titles_ignore_content [simp]:
  "naver_title env (post\<lparr>blog_content := b\<rparr>) fd = naver_title env post fd"
  "youtube_title env (post\<lparr>video_path := v\<rparr>) fd = youtube_title env post fd"
  "naver_title env (post\<lparr>flower_data := f\<rparr>) fd = naver_title env post fd"
  "youtube_title env (post\<lparr>flower_data := f\<rparr>) fd = youtube_title env post fd"
  by (simp_all add: naver_title_def youtube_title_def)








section \<open>Failure of the analysis\<close>



section \<open>Isolation of the platforms\<close>





end
